theory Spec2Isabelle
  imports Main "HOL-Library.Word"
begin

unbundle bit_operations_syntax

section \<open>Nintendo Joy-Con serial gamepad driver (drivers/input/joystick/joycon.c)\<close>

text \<open>
  A shallow embedding of the driver. Each handler of the C file becomes a function from
  the state it reads (the per-controller \<open>struct joycon\<close>, the file-level globals) to the
  state it leaves, together with the list of calls it makes into the kernel (serial
  writes, input events, locking, work scheduling), in program order.
  \<open>printk\<close> calls are diagnostics only and are left out.
\<close>

subsection \<open>Machine types\<close>

type_synonym u8 = "8 word"
type_synonym u32 = "32 word"

text \<open>A C \<open>int\<close>: 32 bits, read as two's complement by \<open>sint\<close>.\<close>

type_synonym s32 = "32 word"

text \<open>A pointer value: the driver is built for the 64-bit ARM of the console.\<close>

type_synonym ptr = "64 word"

text \<open>
  A \<open>u8 *\<close> argument is the memory at and after the address: byte \<open>i\<close> of the buffer is
  \<open>p i\<close>. No function of the driver compares an index with the length it was given, so
  a read past the received length sees whatever bytes follow in memory; the theorems
  below quantify over all such contents.
\<close>

type_synonym bytes = "nat \<Rightarrow> u8"

definition ptr_add :: "bytes \<Rightarrow> nat \<Rightarrow> bytes" where
  "ptr_add p n = (\<lambda>i. p (n + i))"

text \<open>A received buffer given by its bytes; memory after it reads as the given filler.\<close>

definition buf_of :: "u8 \<Rightarrow> u8 list \<Rightarrow> bytes" where
  "buf_of fill xs = (\<lambda>i. if i < length xs then xs ! i else fill)"

subsection \<open>Constants\<close>

definition magic_start :: "u8 list" where
  "magic_start = [0xA1, 0xA2, 0xA3, 0xA4]"

definition handshake_start :: "u8 list" where
  "handshake_start = [0x19, 0x01, 0x03, 0x07, 0x00, 0xA5, 0x02, 0x01, 0x7E, 0x00, 0x00, 0x00]"

definition get_mac :: "u8 list" where
  "get_mac = [0x19, 0x01, 0x03, 0x07, 0x00, 0x91, 0x01, 0x00, 0x00, 0x00, 0x00, 0x24]"

definition switch_baud :: "u8 list" where
  "switch_baud = [0x19, 0x01, 0x03, 0x0F, 0x00, 0x91, 0x20, 0x08, 0x00, 0x00,
                  0xBD, 0xB1, 0xC0, 0xC6, 0x2D, 0x00, 0x00, 0x00, 0x00, 0x00]"

definition controller_status :: "u8 list" where
  "controller_status = [0x19, 0x01, 0x03, 0x08, 0x00, 0x92, 0x00, 0x01, 0x00, 0x00, 0x69, 0x2D, 0x1F]"

definition unk_1 :: "u8 list" where
  "unk_1 = [0x19, 0x01, 0x03, 0x07, 0x00, 0x91, 0x11, 0x00, 0x00, 0x00, 0x00, 0x0E]"

definition unk_2 :: "u8 list" where
  "unk_2 = [0x19, 0x01, 0x03, 0x07, 0x00, 0x91, 0x10, 0x00, 0x00, 0x00, 0x00, 0x3D]"

definition unk_3 :: "u8 list" where
  "unk_3 = [0x19, 0x01, 0x03, 0x0B, 0x00, 0x91, 0x12, 0x04, 0x00, 0x00, 0x12, 0xA6, 0x0F, 0x00, 0x00, 0x00]"

definition JOYCON_COMMAND_EXTSEND :: u8 where "JOYCON_COMMAND_EXTSEND = 0x91"
definition JOYCON_COMMAND_EXTRET :: u8 where "JOYCON_COMMAND_EXTRET = 0x92"
definition JOYCON_COMMAND_INITRET :: u8 where "JOYCON_COMMAND_INITRET = 0x94"
definition JOYCON_COMMAND_HANDSHAKE :: u8 where "JOYCON_COMMAND_HANDSHAKE = 0xA5"

definition JOYCON_INIT_MAC :: u8 where "JOYCON_INIT_MAC = 0x1"
definition JOYCON_INIT_BAUDRATE :: u8 where "JOYCON_INIT_BAUDRATE = 0x20"
definition JOYCON_INIT_UNK1 :: u8 where "JOYCON_INIT_UNK1 = 0x11"
definition JOYCON_INIT_UNK2 :: u8 where "JOYCON_INIT_UNK2 = 0x10"
definition JOYCON_INIT_UNK3 :: u8 where "JOYCON_INIT_UNK3 = 0x12"

definition JOYCON_EXT_INPUT :: u8 where "JOYCON_EXT_INPUT = 0x30"

text \<open>The bits of the 24-bit button field, \<open>BIT(n)\<close> being \<open>1 << n\<close>.\<close>

definition JOYCON_BUTTON_Y :: u32 where "JOYCON_BUTTON_Y = push_bit 0 1"
definition JOYCON_BUTTON_X :: u32 where "JOYCON_BUTTON_X = push_bit 1 1"
definition JOYCON_BUTTON_B :: u32 where "JOYCON_BUTTON_B = push_bit 2 1"
definition JOYCON_BUTTON_A :: u32 where "JOYCON_BUTTON_A = push_bit 3 1"
definition JOYCON_BUTTON_RSL :: u32 where "JOYCON_BUTTON_RSL = push_bit 4 1"
definition JOYCON_BUTTON_RSR :: u32 where "JOYCON_BUTTON_RSR = push_bit 5 1"
definition JOYCON_BUTTON_R :: u32 where "JOYCON_BUTTON_R = push_bit 6 1"
definition JOYCON_BUTTON_ZR :: u32 where "JOYCON_BUTTON_ZR = push_bit 7 1"
definition JOYCON_BUTTON_MINUS :: u32 where "JOYCON_BUTTON_MINUS = push_bit 8 1"
definition JOYCON_BUTTON_PLUS :: u32 where "JOYCON_BUTTON_PLUS = push_bit 9 1"
definition JOYCON_BUTTON_STICKR :: u32 where "JOYCON_BUTTON_STICKR = push_bit 10 1"
definition JOYCON_BUTTON_STICKL :: u32 where "JOYCON_BUTTON_STICKL = push_bit 11 1"
definition JOYCON_BUTTON_HOME :: u32 where "JOYCON_BUTTON_HOME = push_bit 12 1"
definition JOYCON_BUTTON_SCREENSHOT :: u32 where "JOYCON_BUTTON_SCREENSHOT = push_bit 13 1"
definition JOYCON_BUTTON_DOWN :: u32 where "JOYCON_BUTTON_DOWN = push_bit 16 1"
definition JOYCON_BUTTON_UP :: u32 where "JOYCON_BUTTON_UP = push_bit 17 1"
definition JOYCON_BUTTON_RIGHT :: u32 where "JOYCON_BUTTON_RIGHT = push_bit 18 1"
definition JOYCON_BUTTON_LEFT :: u32 where "JOYCON_BUTTON_LEFT = push_bit 19 1"
definition JOYCON_BUTTON_LSL :: u32 where "JOYCON_BUTTON_LSL = push_bit 20 1"
definition JOYCON_BUTTON_LSR :: u32 where "JOYCON_BUTTON_LSR = push_bit 21 1"
definition JOYCON_BUTTON_L :: u32 where "JOYCON_BUTTON_L = push_bit 22 1"
definition JOYCON_BUTTON_ZL :: u32 where "JOYCON_BUTTON_ZL = push_bit 23 1"

definition JOYCON_BUTTONS_LEFT :: u32 where "JOYCON_BUTTONS_LEFT = 0xFFE900"
definition JOYCON_BUTTONS_RIGHT :: u32 where "JOYCON_BUTTONS_RIGHT = 0x76FF"
definition JOYCON_BUTTONS_ALL :: u32 where
  "JOYCON_BUTTONS_ALL = JOYCON_BUTTONS_LEFT OR JOYCON_BUTTONS_RIGHT"

definition JOYCON_BUTTONSET_LEFT :: u8 where "JOYCON_BUTTONSET_LEFT = push_bit 0 1"
definition JOYCON_BUTTONSET_RIGHT :: u8 where "JOYCON_BUTTONSET_RIGHT = push_bit 1 1"

text \<open>\<open>sizeof (joycon_uart_initial)\<close>: magic[3], total_size, pad.\<close>

definition sizeof_joycon_uart_initial :: nat where
  "sizeof_joycon_uart_initial = 3 + 1 + 1"

text \<open>\<open>sizeof (joycon_uart_header)\<close>: initial, command, data[5], crc.\<close>

definition sizeof_joycon_uart_header :: nat where
  "sizeof_joycon_uart_header = sizeof_joycon_uart_initial + 1 + 5 + 1"

subsection \<open>State\<close>

text \<open>
  \<open>struct joycon\<close>. The fields \<open>input_dev\<close>, \<open>dev\<close> and \<open>idx\<close> are never read by the handlers
  modelled here and are left out; \<open>serdev\<close> is the pointer value. With 8-byte pointers
  and 4-byte \<open>int\<close> the fields lie at these byte offsets: \<open>serdev\<close> 0, \<open>input_dev\<close> 8, \<open>dev\<close> 16,
  \<open>handshaken\<close> 24, \<open>initialized\<close> 25, \<open>timeout_samples\<close> 28, \<open>num_samples\<close> 32,
  \<open>button_set\<close> 36, \<open>idx\<close> 40, \<open>buttons\<close> 44, \<open>mac\<close> 48 to 53; bytes 26, 27, 37 to 39, 54
  and 55 are padding and the size is 56.
\<close>

record joycon =
  serdev :: ptr
  handshaken :: bool
  initialized :: bool
  timeout_samples :: s32
  num_samples :: s32
  button_set :: u8
  buttons :: u32
  mac :: "u8 list"

text \<open>The virtual input device as \<open>joycon_serdev_probe\<close> sets it up.\<close>

record abs_params =
  abs_axis :: nat
  abs_min :: int
  abs_max :: int
  abs_fuzz :: int
  abs_flat :: int

record input_device =
  dev_name :: string
  keybit :: "int list"
  absinfo :: "abs_params list"

text \<open>
  The file-level variables \<open>buttons\<close>, \<open>stick_lx\<close>, \<open>stick_ly\<close>, \<open>stick_rx\<close>, \<open>stick_ry\<close>
  and \<open>input_dev\<close> (\<open>None\<close> is the null pointer). The global \<open>buttons\<close> is named
  \<open>buttons_glob\<close> here, the field of \<open>struct joycon\<close> keeps the name \<open>buttons\<close>.
\<close>

record globals =
  buttons_glob :: u32
  stick_lx :: int
  stick_ly :: int
  stick_rx :: int
  stick_ry :: int
  input_dev :: "input_device option"

text \<open>The globals before any handler has run: static storage, all zero.\<close>

definition globals_zeroed :: globals where
  "globals_zeroed =
    \<lparr>buttons_glob = 0, stick_lx = 0, stick_ly = 0, stick_rx = 0, stick_ry = 0,
     input_dev = None\<rparr>"

datatype work = TimeoutPoll | InputPoll | SyncPoll

text \<open>
  The calls a handler makes, in order. \<open>SerdevWrite\<close> is a call of
  \<open>serdev_device_write\<close> with the given bytes (every one has the 200 ms timeout);
  \<open>QueueDelayedWork w ms\<close> is \<open>queue_delayed_work\<close> of the handler \<open>w\<close> after
  \<open>msecs_to_jiffies (ms)\<close>; \<open>MutexLock\<close> and \<open>MutexUnlock\<close> are on \<open>joycon_input_lock\<close>;
  \<open>StrayStore j v\<close> is a store of \<open>v\<close> to \<open>mac[j]\<close> that hits no field of the model.
\<close>

datatype effect =
    SerdevWrite "u8 list"
  | SetBaudrate nat
  | Usleep nat nat
  | MutexLock
  | MutexUnlock
  | ReportKey int int
  | ReportAbs nat int
  | InputSync
  | QueueDelayedWork work nat
  | StrayStore int u8
  | SerdevOpen
  | SetFlowControl bool

subsection \<open>Extended reports: \<open>joycon_extret_parse\<close>\<close>

definition joycon_extret_parse :: "joycon \<Rightarrow> globals \<Rightarrow> bytes \<Rightarrow> u32 \<Rightarrow> joycon \<times> globals \<times> effect list" where
  "joycon_extret_parse s g packet sz =
    (if packet 0 = JOYCON_EXT_INPUT then
       let s1 = s\<lparr>buttons := ucast (packet 3) OR push_bit 8 (ucast (packet 4))
                                OR push_bit 16 (ucast (packet 5))\<rparr>;
           g1 = (if button_set s1 AND JOYCON_BUTTONSET_LEFT \<noteq> 0
                 then g\<lparr>buttons_glob := (buttons_glob g AND NOT JOYCON_BUTTONS_LEFT)
                                          OR (buttons s1 AND JOYCON_BUTTONS_LEFT)\<rparr>
                 else g);
           g2 = (if button_set s1 AND JOYCON_BUTTONSET_RIGHT \<noteq> 0
                 then g1\<lparr>buttons_glob := (buttons_glob g1 AND NOT JOYCON_BUTTONS_RIGHT)
                                           OR (buttons s1 AND JOYCON_BUTTONS_RIGHT)\<rparr>
                 else g1);
           g3 = (if button_set s1 AND JOYCON_BUTTONSET_LEFT \<noteq> 0
                 then g2\<lparr>stick_lx := push_bit 4 (uint (packet 7) AND 0x0F)
                                       OR drop_bit 4 (uint (packet 6) AND 0xF0),
                         stick_ly := 256 - uint (packet 8)\<rparr>
                 else g2);
           g4 = (if button_set s1 AND JOYCON_BUTTONSET_RIGHT \<noteq> 0
                 then g3\<lparr>stick_rx := push_bit 4 (uint (packet 10) AND 0x0F)
                                       OR drop_bit 4 (uint (packet 9) AND 0xF0),
                         stick_ry := 256 - uint (packet 11)\<rparr>
                 else g3)
       in (s1\<lparr>num_samples := num_samples s1 + 1\<rparr>, g4, [MutexLock, MutexUnlock])
     else (s, g, []))"

subsection \<open>Initialisation replies: \<open>joycon_initret_parse\<close>\<close>

text \<open>Byte \<open>k\<close> of a little-endian integer replaced by \<open>v\<close>.\<close>

definition set_byte :: "'a::len word \<Rightarrow> nat \<Rightarrow> u8 \<Rightarrow> 'a word" where
  "set_byte w k v = (w AND NOT (push_bit (8 * k) 0xFF)) OR push_bit (8 * k) (ucast v)"

text \<open>
  One store \<open>joycon->mac[j] = v\<close>. The array has six entries and the store is not
  checked: with \<open>j\<close> outside \<open>0..5\<close> it writes the byte at offset \<open>48 + j\<close> of the struct,
  which is a byte of another field (\<open>mac[-4]\<close> to \<open>mac[-1]\<close> are \<open>buttons\<close>, \<open>mac[-16]\<close> to
  \<open>mac[-13]\<close> are \<open>num_samples\<close>, and so on down to \<open>serdev\<close>; a \<open>bool\<close> reads as true when
  its byte is not zero). A store that falls on padding, on one of the fields left out of
  the record, or outside the struct changes no field of the model and is recorded as a
  \<open>StrayStore\<close>; what such a store does to memory outside the struct is not tracked.
\<close>

definition store_mac :: "int \<Rightarrow> u8 \<Rightarrow> joycon \<times> effect list \<Rightarrow> joycon \<times> effect list" where
  "store_mac j v st =
    (case st of (s, es) \<Rightarrow>
       if 0 \<le> j \<and> j < 6 then (s\<lparr>mac := (mac s)[nat j := v]\<rparr>, es)
       else if - 4 \<le> j \<and> j < 0 then (s\<lparr>buttons := set_byte (buttons s) (nat (j + 4)) v\<rparr>, es)
       else if j = - 12 then (s\<lparr>button_set := v\<rparr>, es)
       else if - 16 \<le> j \<and> j < - 12
         then (s\<lparr>num_samples := set_byte (num_samples s) (nat (j + 16)) v\<rparr>, es)
       else if - 20 \<le> j \<and> j < - 16
         then (s\<lparr>timeout_samples := set_byte (timeout_samples s) (nat (j + 20)) v\<rparr>, es)
       else if j = - 23 then (s\<lparr>initialized := (v \<noteq> 0)\<rparr>, es)
       else if j = - 24 then (s\<lparr>handshaken := (v \<noteq> 0)\<rparr>, es)
       else if - 48 \<le> j \<and> j < - 40
         then (s\<lparr>serdev := set_byte (serdev s) (nat (j + 48)) v\<rparr>, es)
       else (s, es @ [StrayStore j v]))"

text \<open>
  The loop \<open>for (i = 0xC; i >= 0x6; i--) joycon->mac[j++] = packet[i];\<close> from the
  current values of \<open>i\<close> and \<open>j\<close>.
\<close>

function mac_loop :: "int \<Rightarrow> int \<Rightarrow> bytes \<Rightarrow> joycon \<times> effect list \<Rightarrow> joycon \<times> effect list" where
  "mac_loop i j packet st =
    (if i \<ge> 0x6 then mac_loop (i - 1) (j + 1) packet (store_mac j (packet (nat i)) st)
     else st)"
  by pat_completeness auto
termination
  by (relation "measure (\<lambda>(i, j, packet, st). nat (i - 5))") auto

declare mac_loop.simps [simp del]

text \<open>
  The local \<open>j\<close> is declared without an initialiser and first used as \<open>mac[j++]\<close>; its
  starting value is whatever the stack slot holds and is the parameter \<open>j_uninit\<close> here.
\<close>

definition joycon_initret_parse :: "int \<Rightarrow> joycon \<Rightarrow> bytes \<Rightarrow> u32 \<Rightarrow> joycon \<times> effect list" where
  "joycon_initret_parse j_uninit s packet sz =
    (if packet 0 = JOYCON_INIT_MAC then
       (case mac_loop 0xC j_uninit packet (s, []) of (s1, es) \<Rightarrow>
          if mac s1 ! 0 \<noteq> 0x7C then (s1\<lparr>button_set := JOYCON_BUTTONSET_LEFT\<rparr>, es)
          else (s1\<lparr>button_set := JOYCON_BUTTONSET_RIGHT\<rparr>, es))
     else if packet 0 = JOYCON_INIT_UNK1 \<or> packet 0 = JOYCON_INIT_UNK2
             \<or> packet 0 = JOYCON_INIT_UNK3 then (s, [])
     else if packet 0 = JOYCON_INIT_BAUDRATE then (s, [SetBaudrate 3125000])
     else (s, []))"

subsection \<open>Frame dispatch: \<open>joycon_packet_parse\<close> and \<open>joycon_serdev_receive_buf\<close>\<close>

text \<open>
  \<open>header->command\<close> is the byte after the five bytes of \<open>joycon_uart_initial\<close>;
  \<open>header->data[0]\<close> and \<open>header->data[1]\<close> are the two bytes after it.
\<close>

definition joycon_packet_parse :: "int \<Rightarrow> joycon \<Rightarrow> globals \<Rightarrow> bytes \<Rightarrow> nat \<Rightarrow> joycon \<times> globals \<times> effect list" where
  "joycon_packet_parse j_uninit s g packet sz =
    (let command = packet sizeof_joycon_uart_initial;
         data0 = packet (sizeof_joycon_uart_initial + 1);
         data1 = packet (sizeof_joycon_uart_initial + 2)
     in if command = JOYCON_COMMAND_EXTRET then
          joycon_extret_parse s g (ptr_add packet sizeof_joycon_uart_header)
            (push_bit 8 (ucast data0) OR ucast data1)
        else if command = JOYCON_COMMAND_INITRET then
          (case joycon_initret_parse j_uninit s (ptr_add packet (sizeof_joycon_uart_initial + 1))
                  (word_of_nat sz - word_of_nat sizeof_joycon_uart_initial - 1)
           of (s', es) \<Rightarrow> (s', g, es))
        else if command = JOYCON_COMMAND_HANDSHAKE then (s\<lparr>handshaken := True\<rparr>, g, [])
        else (s, g, []))"

text \<open>
  \<open>drvdata\<close> is what \<open>serdev_device_get_drvdata (serdev)\<close> returns (\<open>None\<close> for a null
  pointer), \<open>sd\<close> the \<open>serdev\<close> pointer the callback was given. The result is the returned \<open>int\<close>,
  the session, the globals and the calls made.
\<close>

definition joycon_serdev_receive_buf ::
    "int \<Rightarrow> ptr \<Rightarrow> joycon option \<Rightarrow> globals \<Rightarrow> bytes \<Rightarrow> nat \<Rightarrow> int \<times> joycon option \<times> globals \<times> effect list" where
  "joycon_serdev_receive_buf j_uninit sd drvdata g buf len =
    (case drvdata of
       None \<Rightarrow> (0, None, g, [])
     | Some s \<Rightarrow>
         if sd \<noteq> serdev s then (0, Some s, g, [])
         else (case joycon_packet_parse j_uninit s g buf len of
                 (s', g', es) \<Rightarrow> (sint (word_of_nat len :: s32), Some s', g', es)))"

subsection \<open>The liveness monitor: \<open>timeout_handler\<close>\<close>

text \<open>
  What the handler meets in one pass of its loop \<open>while (!joycon->handshaken)\<close>: the
  value \<open>serdev_device_write\<close> returns for \<open>magic_start\<close> and for \<open>handshake_start\<close>
  (non-zero is an error), and whether the receive path sets \<open>joycon->handshaken\<close> while
  the handler sleeps in \<open>usleep_range\<close>. The flag is the only thing another thread
  changes under the handler in this model.
\<close>

record round =
  err_magic :: int
  err_handshake :: int
  ack :: bool

datatype loop_exit = Fail | Handshaken

text \<open>
  The loop from pass \<open>k\<close>, with the calls made so far. It has no bound: when no write
  fails and no acknowledgement ever arrives it does not return, which is \<open>None\<close>.
\<close>

partial_function (option) handshake_loop ::
    "(nat \<Rightarrow> round) \<Rightarrow> nat \<Rightarrow> joycon \<Rightarrow> effect list \<Rightarrow> (loop_exit \<times> joycon \<times> effect list) option" where
  "handshake_loop env k s es =
    (if handshaken s then Some (Handshaken, s, es)
     else if err_magic (env k) \<noteq> 0 then Some (Fail, s, es @ [SerdevWrite magic_start])
     else if err_handshake (env k) \<noteq> 0
       then Some (Fail, s, es @ [SerdevWrite magic_start, SerdevWrite handshake_start])
     else handshake_loop env (Suc k) (s\<lparr>handshaken := ack (env k)\<rparr>)
            (es @ [SerdevWrite magic_start, SerdevWrite handshake_start, Usleep 180000 200000]))"

text \<open>The test that opens the recovery branch.\<close>

definition stalled :: "joycon \<Rightarrow> bool" where
  "stalled s = ((num_samples s - timeout_samples s = 0 \<and> num_samples s \<noteq> 0) \<or> \<not> initialized s)"

text \<open>The statements from the label \<open>fail\<close> to the end of the handler.\<close>

definition timeout_rearm :: "joycon \<times> effect list \<Rightarrow> joycon \<times> effect list" where
  "timeout_rearm x =
    (case x of (s, es) \<Rightarrow>
       (s\<lparr>timeout_samples := num_samples s\<rparr>, es @ [QueueDelayedWork TimeoutPoll 200]))"

definition timeout_handler :: "(nat \<Rightarrow> round) \<Rightarrow> joycon \<Rightarrow> (joycon \<times> effect list) option" where
  "timeout_handler env s =
    (if stalled s then
       (case handshake_loop env 0 (s\<lparr>handshaken := False, initialized := False\<rparr>) [] of
          None \<Rightarrow> None
        | Some (Fail, s1, es) \<Rightarrow> Some (timeout_rearm (s1, es))
        | Some (Handshaken, s1, es) \<Rightarrow>
            Some (timeout_rearm
              (s1\<lparr>num_samples := 0, initialized := True\<rparr>,
               es @ [SerdevWrite get_mac, SerdevWrite unk_1, SerdevWrite unk_2, SerdevWrite unk_3])))
     else Some (timeout_rearm (s, [])))"

subsection \<open>The status poller: \<open>input_handler\<close>\<close>

definition input_handler :: "joycon \<Rightarrow> effect list" where
  "input_handler s =
    (if initialized s then [SerdevWrite controller_status] else [])
    @ [QueueDelayedWork InputPoll 16]"

subsection \<open>The aggregator: \<open>sync_handler\<close>\<close>

text \<open>
  Event codes of the kernel's \<open>input-event-codes.h\<close>, which is not part of this driver.
\<close>

definition BTN_0 :: int where "BTN_0 = 0x100"
definition BTN_1 :: int where "BTN_1 = 0x101"
definition BTN_2 :: int where "BTN_2 = 0x102"
definition BTN_3 :: int where "BTN_3 = 0x103"
definition BTN_4 :: int where "BTN_4 = 0x104"
definition BTN_5 :: int where "BTN_5 = 0x105"
definition BTN_A :: int where "BTN_A = 0x130"
definition BTN_B :: int where "BTN_B = 0x131"
definition BTN_X :: int where "BTN_X = 0x133"
definition BTN_Y :: int where "BTN_Y = 0x134"
definition BTN_Z :: int where "BTN_Z = 0x135"
definition BTN_TL :: int where "BTN_TL = 0x136"
definition BTN_TR :: int where "BTN_TR = 0x137"
definition BTN_TL2 :: int where "BTN_TL2 = 0x138"
definition BTN_TR2 :: int where "BTN_TR2 = 0x139"
definition BTN_SELECT :: int where "BTN_SELECT = 0x13a"
definition BTN_START :: int where "BTN_START = 0x13b"
definition BTN_MODE :: int where "BTN_MODE = 0x13c"
definition BTN_THUMBL :: int where "BTN_THUMBL = 0x13d"
definition BTN_THUMBR :: int where "BTN_THUMBR = 0x13e"
definition BTN_DPAD_UP :: int where "BTN_DPAD_UP = 0x220"
definition BTN_DPAD_DOWN :: int where "BTN_DPAD_DOWN = 0x221"
definition BTN_DPAD_LEFT :: int where "BTN_DPAD_LEFT = 0x222"
definition BTN_DPAD_RIGHT :: int where "BTN_DPAD_RIGHT = 0x223"

definition ABS_X :: nat where "ABS_X = 0x00"
definition ABS_Y :: nat where "ABS_Y = 0x01"
definition ABS_RX :: nat where "ABS_RX = 0x03"
definition ABS_RY :: nat where "ABS_RY = 0x04"

definition ENOMEM :: int where "ENOMEM = 12"

text \<open>Joy-Con button mappings, with the terminating entry.\<close>

definition joycon_common_btn :: "int list" where
  "joycon_common_btn =
    [BTN_Y, BTN_X, BTN_B, BTN_A,
     BTN_0, BTN_1, BTN_TR, BTN_TR2,
     BTN_SELECT, BTN_START,
     BTN_THUMBR, BTN_THUMBL,
     BTN_MODE, BTN_Z,
     BTN_4, BTN_5,
     BTN_DPAD_DOWN, BTN_DPAD_UP, BTN_DPAD_RIGHT, BTN_DPAD_LEFT,
     BTN_2, BTN_3, BTN_TL, BTN_TL2,
     -1]"

text \<open>
  The argument \<open>buttons & BIT(i)\<close> of \<open>input_report_key\<close>, as the \<open>int\<close> it is passed as.
  \<open>buttons\<close> has 32 bits, so the bits of \<open>BIT(i)\<close> above them do not matter.
\<close>

definition key_value :: "u32 \<Rightarrow> nat \<Rightarrow> int" where
  "key_value b i = sint (b AND push_bit i 1)"

text \<open>
  The loop \<open>for (i = 0; joycon_common_btn[i] >= 0; i++)\<close> over the rest of the table from
  index \<open>i\<close>. The table ends with \<open>-1\<close>, so the first equation is not reached from
  \<open>sync_handler\<close>.
\<close>

fun report_keys :: "int list \<Rightarrow> nat \<Rightarrow> u32 \<Rightarrow> effect list" where
  "report_keys [] i b = []"
| "report_keys (c # cs) i b =
    (if c \<ge> 0 then ReportKey c (key_value b i) # report_keys cs (Suc i) b else [])"

definition sync_handler :: "globals \<Rightarrow> effect list" where
  "sync_handler g =
    [MutexLock] @ report_keys joycon_common_btn 0 (buttons_glob g)
    @ [ReportAbs ABS_X (stick_lx g), ReportAbs ABS_Y (stick_ly g),
       ReportAbs ABS_RX (stick_rx g), ReportAbs ABS_RY (stick_ry g),
       InputSync, MutexUnlock,
       QueueDelayedWork SyncPoll 10]"

subsection \<open>Attaching a controller: \<open>joycon_serdev_probe\<close>\<close>

text \<open>What the kernel answers to the allocations and the registration of the probe.\<close>

record probe_env =
  kzalloc_ok :: bool
  input_allocate_ok :: bool
  input_register_err :: int

text \<open>The memory \<open>devm_kzalloc\<close> returns: every field zero.\<close>

definition joycon_zeroed :: joycon where
  "joycon_zeroed =
    \<lparr>serdev = 0, handshaken = False, initialized = False, timeout_samples = 0,
     num_samples = 0, button_set = 0, buttons = 0, mac = [0, 0, 0, 0, 0, 0]\<rparr>"

text \<open>The loop \<open>__set_bit (joycon_common_btn[i], input_dev->keybit)\<close> up to the terminator.\<close>

fun set_keybits :: "int list \<Rightarrow> int list" where
  "set_keybits [] = []"
| "set_keybits (c # cs) = (if c \<ge> 0 then c # set_keybits cs else [])"

definition new_input_dev :: input_device where
  "new_input_dev =
    \<lparr>dev_name = ''Joy-Con Rails'',
     keybit = set_keybits joycon_common_btn,
     absinfo =
       [\<lparr>abs_axis = ABS_X, abs_min = 32, abs_max = 255 - 32, abs_fuzz = 0, abs_flat = 4\<rparr>,
        \<lparr>abs_axis = ABS_Y, abs_min = 32, abs_max = 255 - 32, abs_fuzz = 0, abs_flat = 4\<rparr>,
        \<lparr>abs_axis = ABS_RX, abs_min = 32, abs_max = 255 - 32, abs_fuzz = 0, abs_flat = 4\<rparr>,
        \<lparr>abs_axis = ABS_RY, abs_min = 32, abs_max = 255 - 32, abs_fuzz = 0, abs_flat = 4\<rparr>]\<rparr>"

text \<open>The statements from the label \<open>input_exists\<close> to \<open>return 0\<close>.\<close>

definition probe_input_exists :: "globals \<Rightarrow> ptr \<Rightarrow> effect list \<Rightarrow> int \<times> joycon option \<times> globals \<times> effect list" where
  "probe_input_exists g sd es =
    (0, Some (joycon_zeroed\<lparr>serdev := sd\<rparr>), g,
     es @ [SerdevOpen, SetFlowControl True, SetBaudrate 1000000,
           QueueDelayedWork TimeoutPoll 200, QueueDelayedWork InputPoll 200])"

text \<open>
  The result is the returned \<open>int\<close>, the session stored as driver data (if any), the
  globals and the calls made. On the path through \<open>fail1\<close> the device is freed but the
  global \<open>input_dev\<close> is not reset.
\<close>

definition joycon_serdev_probe :: "probe_env \<Rightarrow> globals \<Rightarrow> ptr \<Rightarrow> int \<times> joycon option \<times> globals \<times> effect list" where
  "joycon_serdev_probe env g sd =
    (if \<not> kzalloc_ok env then (- ENOMEM, None, g, [])
     else case input_dev g of
       Some d \<Rightarrow> probe_input_exists g sd []
     | None \<Rightarrow>
         if \<not> input_allocate_ok env then (- ENOMEM, None, g, [])
         else let g1 = g\<lparr>input_dev := Some new_input_dev\<rparr> in
           if input_register_err env \<noteq> 0 then (input_register_err env, None, g1, [])
           else probe_input_exists g1 sd [QueueDelayedWork SyncPoll 10])"

subsection \<open>Environments of the handshake loop\<close>

text \<open>The calls of one full pass of the loop: both writes and the sleep.\<close>

definition handshake_pass :: "effect list" where
  "handshake_pass = [SerdevWrite magic_start, SerdevWrite handshake_start, Usleep 180000 200000]"

text \<open>
  A pass is quiet when both writes succeed and no acknowledgement arrives, acknowledged
  when both succeed and one arrives; it ends the loop when a write fails or an
  acknowledgement arrives.
\<close>

definition round_quiet :: "round \<Rightarrow> bool" where
  "round_quiet r = (err_magic r = 0 \<and> err_handshake r = 0 \<and> \<not> ack r)"

definition round_acked :: "round \<Rightarrow> bool" where
  "round_acked r = (err_magic r = 0 \<and> err_handshake r = 0 \<and> ack r)"

definition round_ends :: "round \<Rightarrow> bool" where
  "round_ends r = (err_magic r \<noteq> 0 \<or> err_handshake r \<noteq> 0 \<or> ack r)"

text \<open>
  Four environments: the acknowledgement arrives in the second pass; every write
  succeeds and no acknowledgement ever arrives; every write times out; the first pass is
  quiet and the write of \<open>handshake_start\<close> times out in every later one.
\<close>

definition env_ack_second :: "nat \<Rightarrow> round" where
  "env_ack_second i = \<lparr>err_magic = 0, err_handshake = 0, ack = (i \<noteq> 0)\<rparr>"

definition env_silent :: "nat \<Rightarrow> round" where
  "env_silent i = \<lparr>err_magic = 0, err_handshake = 0, ack = False\<rparr>"

definition env_write_fails :: "nat \<Rightarrow> round" where
  "env_write_fails i = \<lparr>err_magic = - 110, err_handshake = 0, ack = False\<rparr>"

definition env_handshake_write_fails_second :: "nat \<Rightarrow> round" where
  "env_handshake_write_fails_second i =
    \<lparr>err_magic = 0, err_handshake = (if i = 0 then 0 else - 110), ack = False\<rparr>"

subsection \<open>Frame checks of the specification\<close>

text \<open>
  The two checks of an inbound frame that the specification names, written from the
  specification's words for comparison with the code: the three magic bytes \<open>0x19, 0x01, 0x03\<close>, and a length byte that counts
  the bytes after the five-byte initial header (the reading under which the driver's own
  outbound frames pass).
\<close>

definition spec_magic_ok :: "bytes \<Rightarrow> bool" where
  "spec_magic_ok buf = (buf 0 = 0x19 \<and> buf 1 = 0x01 \<and> buf 2 = 0x03)"

definition spec_length_ok :: "bytes \<Rightarrow> nat \<Rightarrow> bool" where
  "spec_length_ok buf len = (unat (buf 3) + sizeof_joycon_uart_initial = len)"

section \<open>Properties\<close>

subsection \<open>Arithmetic of the stick decoding\<close>

lemma low_nibble_int: "(x :: int) AND 0x0F = x mod 16"
proof -
  have "x AND mask 4 = take_bit 4 x" by (simp only: take_bit_eq_mask)
  then show ?thesis by (simp add: take_bit_eq_mod mask_eq_exp_minus_1)
qed

lemma stick_arith:
  "push_bit 4 (uint (a :: u8) AND 0x0F) OR drop_bit 4 (uint (b :: u8) AND 0xF0)
     = 16 * (uint a mod 16) + uint b div 16"
proof -
  have b_lt: "uint b < 256" using uint_bounded [of b] by simp
  have hi16: "uint b div 16 mod 16 = uint b div 16"
  proof -
    have "uint b div 16 < 16" "0 \<le> uint b div 16" using b_lt by (simp_all add: pos_imp_zdiv_nonneg_iff)
    then show ?thesis by simp
  qed
  have hi: "drop_bit 4 (uint b AND 0xF0) = uint b div 16"
  proof -
    have "drop_bit 4 (0xF0 :: int) = 0x0F" by (simp add: drop_bit_eq_div)
    then have "drop_bit 4 (uint b AND 0xF0) = drop_bit 4 (uint b) AND 0x0F"
      by (simp only: drop_bit_and)
    also have "\<dots> = (uint b div 16) mod 16"
      by (simp only: low_nibble_int drop_bit_eq_div) simp
    also have "\<dots> = uint b div 16" by (rule hi16)
    finally show ?thesis .
  qed
  have disj: "push_bit 4 (uint a mod 16) AND (uint b div 16) = 0"
  proof -
    have "uint b div 16 = take_bit 4 (uint b div 16)"
      using hi16 by (simp add: take_bit_eq_mod)
    then have "push_bit 4 (uint a mod 16) AND (uint b div 16)
        = push_bit 4 (uint a mod 16) AND ((uint b div 16) AND mask 4)"
      by (simp only: take_bit_eq_mask)
    also have "\<dots> = take_bit 4 (push_bit 4 (uint a mod 16)) AND (uint b div 16)"
      by (simp only: take_bit_eq_mask and.assoc and.commute and.left_commute)
    also have "\<dots> = 0"
      by (simp only: take_bit_push_bit) simp
    finally show ?thesis .
  qed
  have "push_bit 4 (uint a AND 0x0F) OR drop_bit 4 (uint b AND 0xF0)
      = push_bit 4 (uint a mod 16) OR (uint b div 16)"
    by (simp only: hi low_nibble_int)
  also have "\<dots> = push_bit 4 (uint a mod 16) + (uint b div 16)"
    using disjunctive_add_eq_or [OF disj] by simp
  also have "\<dots> = 16 * (uint a mod 16) + uint b div 16"
    by (simp add: push_bit_eq_mult)
  finally show ?thesis .
qed

lemma sint_eq_0_32: "sint (w :: 32 word) = 0 \<longleftrightarrow> w = 0"
  by (simp add: signed_eq_0_iff)

subsection \<open>Merging the two halves\<close>

text \<open>
  When the left half reports every bit of its mask and the right half then reports every
  bit of its own, the merged field is the union of the two masks.
\<close>

lemma all_left_then_all_right:
  "(let g1 = fst (snd (joycon_extret_parse (joycon_zeroed\<lparr>button_set := JOYCON_BUTTONSET_LEFT\<rparr>)
                globals_zeroed (buf_of 0 [0x30, 0, 0, 0x00, 0xE9, 0xFF]) 0));
        g2 = fst (snd (joycon_extret_parse (joycon_zeroed\<lparr>button_set := JOYCON_BUTTONSET_RIGHT\<rparr>)
                g1 (buf_of 0 [0x30, 0, 0, 0xFF, 0x76, 0x00]) 0))
    in buttons_glob g1 = JOYCON_BUTTONS_LEFT \<and> buttons_glob g2 = JOYCON_BUTTONS_ALL)"
  by (simp add: joycon_extret_parse_def buf_of_def joycon_zeroed_def globals_zeroed_def Let_def
      JOYCON_BUTTONS_LEFT_def JOYCON_BUTTONS_RIGHT_def JOYCON_BUTTONS_ALL_def
      JOYCON_BUTTONSET_LEFT_def JOYCON_BUTTONSET_RIGHT_def JOYCON_EXT_INPUT_def)

text \<open>
  C1. The claim: the masks of a left and a right session are disjoint, and neither merge
  clears a bit owned by the other side. On the code the two masks share bits 13 and 14
  (\<open>0x6000\<close>), bit 13 being \<open>JOYCON_BUTTON_SCREENSHOT\<close>. The left half reports the
  screenshot button held (button bytes \<open>00 20 00\<close>) and the merged field becomes
  \<open>JOYCON_BUTTON_SCREENSHOT\<close>; the right half then reports no button held and the merged field becomes
  \<open>0\<close>: the right session's merge has cleared the bit the left session set. Both frames
  go through \<open>joycon_packet_parse\<close> as received, header included.
\<close>

theorem right_report_clears_left_bit:
  "JOYCON_BUTTONS_LEFT AND JOYCON_BUTTONS_RIGHT = JOYCON_BUTTON_SCREENSHOT OR push_bit 14 1
   \<and> (let g1 = fst (snd (joycon_packet_parse 0 (joycon_zeroed\<lparr>button_set := JOYCON_BUTTONSET_LEFT\<rparr>)
                  globals_zeroed
                  (buf_of 0 [0x19, 0x01, 0x03, 0x00, 0x00, 0x92, 0, 0, 0, 0, 0, 0,
                             0x30, 0, 0, 0x00, 0x20, 0x00, 0, 0, 0, 0, 0, 0]) 24));
           g2 = fst (snd (joycon_packet_parse 0 (joycon_zeroed\<lparr>button_set := JOYCON_BUTTONSET_RIGHT\<rparr>)
                  g1
                  (buf_of 0 [0x19, 0x01, 0x03, 0x00, 0x00, 0x92, 0, 0, 0, 0, 0, 0,
                             0x30, 0, 0, 0x00, 0x00, 0x00, 0, 0, 0, 0, 0, 0]) 24))
       in buttons_glob g1 = JOYCON_BUTTON_SCREENSHOT \<and> buttons_glob g2 = 0)"
  by (simp add: joycon_packet_parse_def joycon_extret_parse_def buf_of_def ptr_add_def
      JOYCON_BUTTON_SCREENSHOT_def
      sizeof_joycon_uart_header_def sizeof_joycon_uart_initial_def
      joycon_zeroed_def globals_zeroed_def Let_def
      JOYCON_COMMAND_EXTRET_def
      JOYCON_BUTTONS_LEFT_def JOYCON_BUTTONS_RIGHT_def
      JOYCON_BUTTONSET_LEFT_def JOYCON_BUTTONSET_RIGHT_def JOYCON_EXT_INPUT_def)

subsection \<open>Stick values\<close>

text \<open>
  C9. For an input report (\<open>packet 0 = 0x30\<close>) processed by a session that owns the left
  side, \<open>stick_lx\<close> is \<open>((packet[7] & 0x0F) << 4) | ((packet[6] & 0xF0) >> 4)\<close>, that is
  sixteen times the low nibble of byte 7 plus the high nibble of byte 6, and \<open>stick_ly\<close>
  is \<open>256 - packet[8]\<close>; the same for the right side with bytes 10, 9 and 11. When the
  Y byte is zero the stored value is 256, above the maximum 223 that
  \<open>joycon_serdev_probe\<close> registers for every axis.
\<close>

theorem extret_sticks:
  assumes "packet 0 = JOYCON_EXT_INPUT"
    and "joycon_extret_parse s g packet sz = (s', g', es)"
  shows "(button_set s AND JOYCON_BUTTONSET_LEFT \<noteq> 0 \<longrightarrow>
            stick_lx g' = push_bit 4 (uint (packet 7) AND 0x0F) OR drop_bit 4 (uint (packet 6) AND 0xF0)
          \<and> stick_lx g' = 16 * (uint (packet 7) mod 16) + uint (packet 6) div 16
          \<and> stick_ly g' = 256 - uint (packet 8))
       \<and> (button_set s AND JOYCON_BUTTONSET_RIGHT \<noteq> 0 \<longrightarrow>
            stick_rx g' = push_bit 4 (uint (packet 10) AND 0x0F) OR drop_bit 4 (uint (packet 9) AND 0xF0)
          \<and> stick_rx g' = 16 * (uint (packet 10) mod 16) + uint (packet 9) div 16
          \<and> stick_ry g' = 256 - uint (packet 11))
       \<and> (button_set s AND JOYCON_BUTTONSET_LEFT \<noteq> 0 \<and> packet 8 = 0 \<longrightarrow>
            stick_ly g' = 256 \<and> (\<forall>a \<in> set (absinfo new_input_dev). abs_max a = 223 \<and> abs_max a < stick_ly g'))
       \<and> (button_set s AND JOYCON_BUTTONSET_RIGHT \<noteq> 0 \<and> packet 11 = 0 \<longrightarrow>
            stick_ry g' = 256 \<and> (\<forall>a \<in> set (absinfo new_input_dev). abs_max a = 223 \<and> abs_max a < stick_ry g'))"
proof -
  have amax: "\<forall>a \<in> set (absinfo new_input_dev). abs_max a = 223"
    by (simp add: new_input_dev_def)
  from assms have g': "g' = fst (snd (joycon_extret_parse s g packet sz))" by simp
  have lx: "stick_lx g' = push_bit 4 (uint (packet 7) AND 0x0F) OR drop_bit 4 (uint (packet 6) AND 0xF0)"
    and ly: "stick_ly g' = 256 - uint (packet 8)"
    if "button_set s AND JOYCON_BUTTONSET_LEFT \<noteq> 0"
    using that assms(1) unfolding g' by (simp_all add: joycon_extret_parse_def Let_def)
  have rx: "stick_rx g' = push_bit 4 (uint (packet 10) AND 0x0F) OR drop_bit 4 (uint (packet 9) AND 0xF0)"
    and ry: "stick_ry g' = 256 - uint (packet 11)"
    if "button_set s AND JOYCON_BUTTONSET_RIGHT \<noteq> 0"
    using that assms(1) unfolding g' by (simp_all add: joycon_extret_parse_def Let_def)
  have lx': "stick_lx g' = 16 * (uint (packet 7) mod 16) + uint (packet 6) div 16"
    if "button_set s AND JOYCON_BUTTONSET_LEFT \<noteq> 0"
    using lx [OF that] by (simp only: stick_arith)
  have rx': "stick_rx g' = 16 * (uint (packet 10) mod 16) + uint (packet 9) div 16"
    if "button_set s AND JOYCON_BUTTONSET_RIGHT \<noteq> 0"
    using rx [OF that] by (simp only: stick_arith)
  show ?thesis
    using lx lx' ly rx rx' ry amax by simp
qed

theorem extret_sticks_witness:
  "stick_lx (fst (snd (joycon_extret_parse (joycon_zeroed\<lparr>button_set := JOYCON_BUTTONSET_LEFT\<rparr>)
      globals_zeroed (buf_of 0 [0x30, 0, 0, 0, 0, 0, 0x50, 0x07, 0x00]) 0))) = 0x75
   \<and> stick_ly (fst (snd (joycon_extret_parse (joycon_zeroed\<lparr>button_set := JOYCON_BUTTONSET_LEFT\<rparr>)
      globals_zeroed (buf_of 0 [0x30, 0, 0, 0, 0, 0, 0x50, 0x07, 0x00]) 0))) = 256
   \<and> stick_rx (fst (snd (joycon_extret_parse (joycon_zeroed\<lparr>button_set := JOYCON_BUTTONSET_RIGHT\<rparr>)
      globals_zeroed (buf_of 0 [0x30, 0, 0, 0, 0, 0, 0, 0, 0, 0x90, 0x0A, 0x00]) 0))) = 0xA9
   \<and> stick_ry (fst (snd (joycon_extret_parse (joycon_zeroed\<lparr>button_set := JOYCON_BUTTONSET_RIGHT\<rparr>)
      globals_zeroed (buf_of 0 [0x30, 0, 0, 0, 0, 0, 0, 0, 0, 0x90, 0x0A, 0x00]) 0))) = 256
   \<and> abs_max (absinfo new_input_dev ! 1) = 223 \<and> abs_max (absinfo new_input_dev ! 3) = 223"
proof -
  let ?sl = "joycon_zeroed\<lparr>button_set := JOYCON_BUTTONSET_LEFT\<rparr>"
  let ?sr = "joycon_zeroed\<lparr>button_set := JOYCON_BUTTONSET_RIGHT\<rparr>"
  let ?p = "buf_of 0 [0x30, 0, 0, 0, 0, 0, 0x50, 0x07, 0x00]"
  let ?q = "buf_of 0 [0x30, 0, 0, 0, 0, 0, 0, 0, 0, 0x90, 0x0A, 0x00]"
  obtain s' g' es where r: "joycon_extret_parse ?sl globals_zeroed ?p 0 = (s', g', es)"
    by (metis prod_cases3)
  obtain t' h' fs where u: "joycon_extret_parse ?sr globals_zeroed ?q 0 = (t', h', fs)"
    by (metis prod_cases3)
  have p0: "?p 0 = JOYCON_EXT_INPUT" and q0: "?q 0 = JOYCON_EXT_INPUT"
    by (simp_all add: buf_of_def JOYCON_EXT_INPUT_def)
  have l: "button_set ?sl AND JOYCON_BUTTONSET_LEFT \<noteq> 0"
    by (simp add: joycon_zeroed_def JOYCON_BUTTONSET_LEFT_def)
  have rr: "button_set ?sr AND JOYCON_BUTTONSET_RIGHT \<noteq> 0"
    by (simp add: joycon_zeroed_def JOYCON_BUTTONSET_RIGHT_def)
  have p8: "?p 8 = 0" and q11: "?q 11 = 0" by (simp_all add: buf_of_def)
  from extret_sticks [OF p0 r] extret_sticks [OF q0 u] l rr p8 q11 show ?thesis
    unfolding r u by (simp add: buf_of_def new_input_dev_def)
qed

subsection \<open>A session that owns no side\<close>

text \<open>
  C10. A session whose \<open>button_set\<close> has neither side flag (as after \<open>devm_kzalloc\<close>, before
  any identifier reply) processes an input report without touching the globals: the
  merged buttons and the four stick values stay as they were. Of the session only
  \<open>buttons\<close> changes, to the 24-bit field of the report, and \<open>num_samples\<close>, which is
  incremented by one (in the arithmetic of the C \<open>int\<close>).
\<close>

theorem extret_unknown_side_frame:
  assumes "button_set s AND JOYCON_BUTTONSET_LEFT = 0"
    and "button_set s AND JOYCON_BUTTONSET_RIGHT = 0"
    and "packet 0 = JOYCON_EXT_INPUT"
  shows "joycon_extret_parse s g packet sz =
           (s\<lparr>buttons := ucast (packet 3) OR push_bit 8 (ucast (packet 4))
                             OR push_bit 16 (ucast (packet 5)),
              num_samples := num_samples s + 1\<rparr>,
            g, [MutexLock, MutexUnlock])"
  using assms by (simp add: joycon_extret_parse_def Let_def)

theorem extret_unknown_side_frame_witness:
  "joycon_extret_parse joycon_zeroed (globals_zeroed\<lparr>buttons_glob := 0x2000, stick_lx := 0x80\<rparr>)
      (buf_of 0 [0x30, 0, 0, 0x01, 0x02, 0x04, 0x50, 0x07, 0x10, 0x50, 0x07, 0x10]) 0
    = (joycon_zeroed\<lparr>buttons := 0x040201, num_samples := 1\<rparr>,
       globals_zeroed\<lparr>buttons_glob := 0x2000, stick_lx := 0x80\<rparr>,
       [MutexLock, MutexUnlock])"
proof -
  let ?p = "buf_of 0 [0x30, 0, 0, 0x01, 0x02, 0x04, 0x50, 0x07, 0x10, 0x50, 0x07, 0x10]"
  have l: "button_set joycon_zeroed AND JOYCON_BUTTONSET_LEFT = 0"
    and r: "button_set joycon_zeroed AND JOYCON_BUTTONSET_RIGHT = 0"
    by (simp_all add: joycon_zeroed_def)
  have p0: "?p 0 = JOYCON_EXT_INPUT"
    by (simp add: buf_of_def JOYCON_EXT_INPUT_def)
  show ?thesis
    using extret_unknown_side_frame [where s = joycon_zeroed and packet = "?p", OF l r p0]
    by (simp add: buf_of_def joycon_zeroed_def)
qed

subsection \<open>The aggregator tick\<close>

lemmas btn_defs = joycon_common_btn_def BTN_0_def BTN_1_def BTN_2_def BTN_3_def BTN_4_def
  BTN_5_def BTN_A_def BTN_B_def BTN_X_def BTN_Y_def BTN_Z_def BTN_TL_def BTN_TR_def
  BTN_TL2_def BTN_TR2_def BTN_SELECT_def BTN_START_def BTN_MODE_def BTN_THUMBL_def
  BTN_THUMBR_def BTN_DPAD_UP_def BTN_DPAD_DOWN_def BTN_DPAD_LEFT_def BTN_DPAD_RIGHT_def

lemma key_value_bit: "(key_value b i \<noteq> 0) = bit b i"
  by (simp add: key_value_def bit_iff_and_push_bit_not_eq_0 sint_eq_0_32)

lemma report_keys_table:
  "report_keys joycon_common_btn 0 b
     = map (\<lambda>i. ReportKey (joycon_common_btn ! i) (key_value b i)) [0..<24]"
  by (simp add: btn_defs upt_rec)

lemma joycon_common_btn_distinct: "distinct (take 24 joycon_common_btn)"
  by (simp add: btn_defs)

text \<open>
  C8. One run of \<open>sync_handler\<close> takes \<open>joycon_input_lock\<close>, reports one key event for each
  of the 24 entries of \<open>joycon_common_btn\<close> before the terminator (24 different key codes),
  the \<open>i\<close>-th with a value that is non-zero exactly when bit \<open>i\<close> of the merged button field
  is set, then the four stick axes X, Y, RX, RY, then calls \<open>input_sync\<close> once, releases the
  lock and queues itself again 10 ms later.
\<close>

theorem sync_handler_trace:
  "sync_handler g =
     [MutexLock]
     @ map (\<lambda>i. ReportKey (joycon_common_btn ! i) (key_value (buttons_glob g) i)) [0..<24]
     @ [ReportAbs ABS_X (stick_lx g), ReportAbs ABS_Y (stick_ly g),
        ReportAbs ABS_RX (stick_rx g), ReportAbs ABS_RY (stick_ry g),
        InputSync, MutexUnlock, QueueDelayedWork SyncPoll 10]
   \<and> (\<forall>i<24. (key_value (buttons_glob g) i \<noteq> 0) = bit (buttons_glob g) i)
   \<and> distinct (take 24 joycon_common_btn)"
  by (simp only: sync_handler_def report_keys_table key_value_bit joycon_common_btn_distinct) simp

theorem sync_handler_trace_witness:
  "sync_handler (globals_zeroed\<lparr>buttons_glob := 0x000002, stick_lx := 0x75\<rparr>) =
     [MutexLock,
      ReportKey BTN_Y 0, ReportKey BTN_X 2, ReportKey BTN_B 0, ReportKey BTN_A 0,
      ReportKey BTN_0 0, ReportKey BTN_1 0, ReportKey BTN_TR 0, ReportKey BTN_TR2 0,
      ReportKey BTN_SELECT 0, ReportKey BTN_START 0,
      ReportKey BTN_THUMBR 0, ReportKey BTN_THUMBL 0,
      ReportKey BTN_MODE 0, ReportKey BTN_Z 0,
      ReportKey BTN_4 0, ReportKey BTN_5 0,
      ReportKey BTN_DPAD_DOWN 0, ReportKey BTN_DPAD_UP 0,
      ReportKey BTN_DPAD_RIGHT 0, ReportKey BTN_DPAD_LEFT 0,
      ReportKey BTN_2 0, ReportKey BTN_3 0, ReportKey BTN_TL 0, ReportKey BTN_TL2 0,
      ReportAbs ABS_X 0x75, ReportAbs ABS_Y 0, ReportAbs ABS_RX 0, ReportAbs ABS_RY 0,
      InputSync, MutexUnlock, QueueDelayedWork SyncPoll 10]
   \<and> bit (buttons_glob (globals_zeroed\<lparr>buttons_glob := 0x000002, stick_lx := 0x75\<rparr>)) 1"
proof -
  let ?g = "globals_zeroed\<lparr>buttons_glob := 0x000002, stick_lx := 0x75\<rparr>"
  note t = sync_handler_trace [of ?g]
  have "key_value (buttons_glob ?g) 1 \<noteq> 0"
    by (simp add: key_value_def globals_zeroed_def)
  with t have b: "bit (buttons_glob ?g) 1" by simp
  have "sync_handler ?g = [MutexLock]
     @ map (\<lambda>i. ReportKey (joycon_common_btn ! i) (key_value (buttons_glob ?g) i)) [0..<24]
     @ [ReportAbs ABS_X (stick_lx ?g), ReportAbs ABS_Y (stick_ly ?g),
        ReportAbs ABS_RX (stick_rx ?g), ReportAbs ABS_RY (stick_ry ?g),
        InputSync, MutexUnlock, QueueDelayedWork SyncPoll 10]"
    using t by blast
  then show ?thesis using b
    by (simp add: upt_rec joycon_common_btn_def key_value_def globals_zeroed_def)
qed

subsection \<open>The status poller tick\<close>

text \<open>
  C5, as claimed: the poller runs at a fixed period of about 200 ms. On the code the
  handler queues itself again after 16 ms; only \<open>joycon_serdev_probe\<close> uses 200 ms, for the
  first run. An initialised session: the tick writes the status request and queues the
  next tick at 16 ms, and no 200 ms request is made.
\<close>

theorem input_handler_rearm_16:
  "input_handler (joycon_zeroed\<lparr>initialized := True\<rparr>)
      = [SerdevWrite controller_status, QueueDelayedWork InputPoll 16]
   \<and> QueueDelayedWork InputPoll 200 \<notin> set (input_handler (joycon_zeroed\<lparr>initialized := True\<rparr>))"
  by (simp add: input_handler_def joycon_zeroed_def)

text \<open>
  C5, amended: a probe that succeeds queues the first poller tick 200 ms later; every
  tick queues the next one 16 ms later. A tick of an initialised session makes exactly
  one serial write, the status request, before that; a tick of a session that is not
  initialised makes no serial write.
\<close>

theorem input_handler_poll:
  "(initialized s \<longrightarrow> input_handler s = [SerdevWrite controller_status, QueueDelayedWork InputPoll 16])
   \<and> (\<not> initialized s \<longrightarrow> input_handler s = [QueueDelayedWork InputPoll 16])
   \<and> (joycon_serdev_probe env g sd = (0, r, g', es) \<longrightarrow>
        QueueDelayedWork InputPoll 200 \<in> set es \<and> QueueDelayedWork InputPoll 16 \<notin> set es)"
  by (auto simp add: input_handler_def joycon_serdev_probe_def probe_input_exists_def ENOMEM_def Let_def
      split: option.splits if_splits)

theorem input_handler_poll_witness:
  "input_handler (joycon_zeroed\<lparr>initialized := True\<rparr>)
      = [SerdevWrite controller_status, QueueDelayedWork InputPoll 16]
   \<and> input_handler joycon_zeroed = [QueueDelayedWork InputPoll 16]
   \<and> QueueDelayedWork InputPoll 200 \<in> set (snd (snd (snd (joycon_serdev_probe
        \<lparr>kzalloc_ok = True, input_allocate_ok = True, input_register_err = 0\<rparr> globals_zeroed 7))))"
proof -
  let ?env = "\<lparr>kzalloc_ok = True, input_allocate_ok = True, input_register_err = 0\<rparr>"
  obtain r g' es where p: "joycon_serdev_probe ?env globals_zeroed 7 = (0, r, g', es)"
    by (simp add: joycon_serdev_probe_def probe_input_exists_def globals_zeroed_def Let_def)
  have i: "initialized (joycon_zeroed\<lparr>initialized := True\<rparr>)" by simp
  have n: "\<not> initialized joycon_zeroed" by (simp add: joycon_zeroed_def)
  from input_handler_poll [of "joycon_zeroed\<lparr>initialized := True\<rparr>" ?env globals_zeroed 7 r g' es]
       input_handler_poll [of joycon_zeroed ?env globals_zeroed 7 r g' es] i n p
  show ?thesis by simp
qed

subsection \<open>Handshake acknowledgements\<close>

lemma set_handshaken_idem: "handshaken s \<Longrightarrow> s\<lparr>handshaken := True\<rparr> = s"
  by (cases s) simp

lemma cmd_distinct:
  "JOYCON_COMMAND_HANDSHAKE \<noteq> JOYCON_COMMAND_EXTRET"
  "JOYCON_COMMAND_HANDSHAKE \<noteq> JOYCON_COMMAND_INITRET"
  "JOYCON_COMMAND_INITRET \<noteq> JOYCON_COMMAND_EXTRET"
  by (simp_all add: JOYCON_COMMAND_HANDSHAKE_def JOYCON_COMMAND_EXTRET_def JOYCON_COMMAND_INITRET_def)

text \<open>
  C7. A frame whose command byte is \<open>0xA5\<close> sets \<open>handshaken\<close> and does nothing else: no
  call is made, the globals and every other field of the session stay. On a session
  that is already handshaken (so also on a ready one) it changes nothing at all, and a
  second acknowledgement after a first changes nothing either. The initialisation
  requests are sent by \<open>timeout_handler\<close> only, and its test \<open>stalled\<close> does not read
  \<open>handshaken\<close>: an acknowledgement never opens the recovery branch.
\<close>

theorem handshake_ack_once:
  assumes "packet 5 = JOYCON_COMMAND_HANDSHAKE"
  shows "joycon_packet_parse j_uninit s g packet sz = (s\<lparr>handshaken := True\<rparr>, g, [])
       \<and> (handshaken s \<longrightarrow> joycon_packet_parse j_uninit s g packet sz = (s, g, []))
       \<and> joycon_packet_parse j_uninit (s\<lparr>handshaken := True\<rparr>) g packet sz
           = (s\<lparr>handshaken := True\<rparr>, g, [])
       \<and> initialized (fst (joycon_packet_parse j_uninit s g packet sz)) = initialized s
       \<and> stalled (fst (joycon_packet_parse j_uninit s g packet sz)) = stalled s"
  using assms
  by (simp add: joycon_packet_parse_def sizeof_joycon_uart_initial_def cmd_distinct
      set_handshaken_idem stalled_def)

theorem handshake_ack_once_witness:
  "joycon_packet_parse 0 (joycon_zeroed\<lparr>handshaken := True, initialized := True, num_samples := 5\<rparr>)
      globals_zeroed
      (buf_of 0 [0x19, 0x01, 0x03, 0x07, 0x00, 0xA5, 0x02, 0x01, 0x7E, 0x00, 0x00, 0x00]) 12
    = (joycon_zeroed\<lparr>handshaken := True, initialized := True, num_samples := 5\<rparr>, globals_zeroed, [])"
proof -
  let ?p = "buf_of 0 [0x19, 0x01, 0x03, 0x07, 0x00, 0xA5, 0x02, 0x01, 0x7E, 0x00, 0x00, 0x00]"
  let ?s = "joycon_zeroed\<lparr>handshaken := True, initialized := True, num_samples := 5\<rparr>"
  have c: "?p 5 = JOYCON_COMMAND_HANDSHAKE"
    by (simp add: buf_of_def JOYCON_COMMAND_HANDSHAKE_def)
  have h: "handshaken ?s" by simp
  from handshake_ack_once [where packet = "?p" and s = "?s" and g = globals_zeroed
      and j_uninit = 0 and sz = 12, OF c] h
  show ?thesis by blast
qed

subsection \<open>Frame validation\<close>

lemma spec_checks_accept_outbound:
  "spec_magic_ok (buf_of 0 get_mac) \<and> spec_length_ok (buf_of 0 get_mac) (length get_mac)
   \<and> spec_magic_ok (buf_of 0 controller_status)
   \<and> spec_length_ok (buf_of 0 controller_status) (length controller_status)
   \<and> spec_magic_ok (buf_of 0 unk_3) \<and> spec_length_ok (buf_of 0 unk_3) (length unk_3)"
  by (simp add: spec_magic_ok_def spec_length_ok_def buf_of_def get_mac_def
      controller_status_def unk_3_def sizeof_joycon_uart_initial_def)

lemma initret_ignores_size:
  "joycon_initret_parse j_uninit s packet a = joycon_initret_parse j_uninit s packet b"
  by (simp add: joycon_initret_parse_def)

lemma extret_ignores_size: "joycon_extret_parse s g packet a = joycon_extret_parse s g packet b"
  by (simp add: joycon_extret_parse_def)

text \<open>
  C2, as claimed: a frame whose magic or length check fails is dropped with no change of
  the session. On the code the six bytes \<open>00 00 00 00 00 A5\<close>, which fail both checks, are
  dispatched by their command byte and set \<open>handshaken\<close> on a fresh session.
\<close>

theorem bad_frame_is_dispatched:
  "\<not> spec_magic_ok (buf_of 0 [0, 0, 0, 0, 0, 0xA5])
   \<and> \<not> spec_length_ok (buf_of 0 [0, 0, 0, 0, 0, 0xA5]) 6
   \<and> joycon_serdev_receive_buf 0 0 (Some joycon_zeroed) globals_zeroed
         (buf_of 0 [0, 0, 0, 0, 0, 0xA5]) 6
       = (6, Some (joycon_zeroed\<lparr>handshaken := True\<rparr>), globals_zeroed, [])
   \<and> joycon_zeroed\<lparr>handshaken := True\<rparr> \<noteq> joycon_zeroed"
  by (simp add: spec_magic_ok_def spec_length_ok_def buf_of_def joycon_serdev_receive_buf_def
      joycon_packet_parse_def sizeof_joycon_uart_initial_def cmd_distinct joycon_zeroed_def
      JOYCON_COMMAND_HANDSHAKE_def JOYCON_COMMAND_EXTRET_def JOYCON_COMMAND_INITRET_def)

lemma init_sub_distinct:
  "JOYCON_INIT_BAUDRATE \<noteq> JOYCON_INIT_MAC" "JOYCON_INIT_BAUDRATE \<noteq> JOYCON_INIT_UNK1"
  "JOYCON_INIT_BAUDRATE \<noteq> JOYCON_INIT_UNK2" "JOYCON_INIT_BAUDRATE \<noteq> JOYCON_INIT_UNK3"
  by (simp_all add: JOYCON_INIT_BAUDRATE_def JOYCON_INIT_MAC_def JOYCON_INIT_UNK1_def
      JOYCON_INIT_UNK2_def JOYCON_INIT_UNK3_def)

text \<open>
  C2, amended: the decoder reads neither the magic bytes nor the length byte. Two buffers
  that agree from the command byte (offset 5) on are handled identically, whatever their
  first five bytes and whatever the received lengths. The command byte alone selects the
  handler: \<open>0x92\<close> runs \<open>joycon_extret_parse\<close> on the bytes from offset 12 (so an input
  report, subtype \<open>0x30\<close>, is counted and its button bytes stored), \<open>0x94\<close> runs
  \<open>joycon_initret_parse\<close> on the bytes from offset 6 (so sub-byte \<open>0x20\<close> switches the baud
  rate), \<open>0xA5\<close> sets \<open>handshaken\<close>. A frame changes nothing and makes no call when its
  command byte is none of the three, when it is \<open>0x92\<close> with a subtype other than \<open>0x30\<close>,
  and when it is \<open>0x94\<close> with a sub-byte other than \<open>0x01\<close> and \<open>0x20\<close>; a wrong magic or
  length never has that effect. The size argument the handlers are given (\<open>z\<close>) is
  ignored by both.
\<close>

theorem packet_parse_dispatch:
  assumes "\<forall>i\<ge>5. p i = q i"
  shows "joycon_packet_parse j_uninit s g p n = joycon_packet_parse j_uninit s g q m
       \<and> (p 5 = JOYCON_COMMAND_EXTRET \<longrightarrow>
            joycon_packet_parse j_uninit s g p n = joycon_extret_parse s g (ptr_add p 12) z)
       \<and> (p 5 = JOYCON_COMMAND_INITRET \<longrightarrow>
            joycon_packet_parse j_uninit s g p n
              = (fst (joycon_initret_parse j_uninit s (ptr_add p 6) z), g,
                 snd (joycon_initret_parse j_uninit s (ptr_add p 6) z)))
       \<and> (p 5 = JOYCON_COMMAND_HANDSHAKE \<longrightarrow>
            joycon_packet_parse j_uninit s g p n = (s\<lparr>handshaken := True\<rparr>, g, []))
       \<and> (p 5 = JOYCON_COMMAND_EXTRET \<and> p 12 = JOYCON_EXT_INPUT \<longrightarrow>
            num_samples (fst (joycon_packet_parse j_uninit s g p n)) = num_samples s + 1
          \<and> buttons (fst (joycon_packet_parse j_uninit s g p n))
              = ucast (p 15) OR push_bit 8 (ucast (p 16)) OR push_bit 16 (ucast (p 17)))
       \<and> (p 5 = JOYCON_COMMAND_INITRET \<and> p 6 = JOYCON_INIT_BAUDRATE \<longrightarrow>
            joycon_packet_parse j_uninit s g p n = (s, g, [SetBaudrate 3125000]))
       \<and> ((p 5 \<noteq> JOYCON_COMMAND_EXTRET \<and> p 5 \<noteq> JOYCON_COMMAND_INITRET
              \<and> p 5 \<noteq> JOYCON_COMMAND_HANDSHAKE)
            \<or> (p 5 = JOYCON_COMMAND_EXTRET \<and> p 12 \<noteq> JOYCON_EXT_INPUT)
            \<or> (p 5 = JOYCON_COMMAND_INITRET \<and> p 6 \<noteq> JOYCON_INIT_MAC \<and> p 6 \<noteq> JOYCON_INIT_BAUDRATE)
            \<longrightarrow> joycon_packet_parse j_uninit s g p n = (s, g, []))"
proof -
  have e5: "p 5 = q 5" and e6: "p 6 = q 6" and e7: "p 7 = q 7" using assms by simp_all
  have t12: "ptr_add p 12 = ptr_add q 12" using assms by (auto simp add: ptr_add_def)
  have t6: "ptr_add p 6 = ptr_add q 6" using assms by (auto simp add: ptr_add_def)
  have i: "joycon_initret_parse j_uninit s (ptr_add q 6) a
         = joycon_initret_parse j_uninit s (ptr_add q 6) b" for a b
    by (rule initret_ignores_size)
  have x: "joycon_extret_parse s g (ptr_add q 12) a = joycon_extret_parse s g (ptr_add q 12) b" for a b
    by (rule extret_ignores_size)
  have indep: "joycon_packet_parse j_uninit s g p n = joycon_packet_parse j_uninit s g q m"
    using i [of "word_of_nat n - 5 - 1" "word_of_nat m - 5 - 1"]
    by (simp add: joycon_packet_parse_def sizeof_joycon_uart_initial_def
        sizeof_joycon_uart_header_def Let_def e5 e6 e7 t12 t6)
  have ext: "joycon_packet_parse j_uninit s g p n = joycon_extret_parse s g (ptr_add p 12) w"
    if "p 5 = JOYCON_COMMAND_EXTRET" for w
    using that x [of "push_bit 8 (ucast (q 6)) OR ucast (q 7)" w]
    by (simp add: joycon_packet_parse_def sizeof_joycon_uart_initial_def
        sizeof_joycon_uart_header_def Let_def e6 e7 t12)
  have ini: "joycon_packet_parse j_uninit s g p n
              = (fst (joycon_initret_parse j_uninit s (ptr_add p 6) w), g,
                 snd (joycon_initret_parse j_uninit s (ptr_add p 6) w))"
    if "p 5 = JOYCON_COMMAND_INITRET" for w
    using that i [of "word_of_nat n - 5 - 1" w]
    by (simp add: joycon_packet_parse_def sizeof_joycon_uart_initial_def
        Let_def cmd_distinct t6 split: prod.splits)
  have hs: "joycon_packet_parse j_uninit s g p n = (s\<lparr>handshaken := True\<rparr>, g, [])"
    if "p 5 = JOYCON_COMMAND_HANDSHAKE"
    using that by (simp add: joycon_packet_parse_def sizeof_joycon_uart_initial_def cmd_distinct)
  have unk: "joycon_packet_parse j_uninit s g p n = (s, g, [])"
    if "p 5 \<noteq> JOYCON_COMMAND_EXTRET \<and> p 5 \<noteq> JOYCON_COMMAND_INITRET \<and> p 5 \<noteq> JOYCON_COMMAND_HANDSHAKE"
    using that by (simp add: joycon_packet_parse_def sizeof_joycon_uart_initial_def)
  have p12: "ptr_add p 12 0 = p 12" "ptr_add p 12 3 = p 15" "ptr_add p 12 4 = p 16" "ptr_add p 12 5 = p 17"
    and p6: "ptr_add p 6 0 = p 6"
    by (simp_all add: ptr_add_def)
  have inp: "num_samples (fst (joycon_packet_parse j_uninit s g p n)) = num_samples s + 1
          \<and> buttons (fst (joycon_packet_parse j_uninit s g p n))
              = ucast (p 15) OR push_bit 8 (ucast (p 16)) OR push_bit 16 (ucast (p 17))"
    if "p 5 = JOYCON_COMMAND_EXTRET" "p 12 = JOYCON_EXT_INPUT"
    unfolding ext [OF that(1), of 0] using that(2)
    by (simp add: joycon_extret_parse_def Let_def p12)
  have sub: "joycon_packet_parse j_uninit s g p n = (s, g, [])"
    if "p 5 = JOYCON_COMMAND_EXTRET" "p 12 \<noteq> JOYCON_EXT_INPUT"
    unfolding ext [OF that(1), of 0] using that(2)
    by (simp add: joycon_extret_parse_def p12)
  have baud: "joycon_packet_parse j_uninit s g p n = (s, g, [SetBaudrate 3125000])"
    if "p 5 = JOYCON_COMMAND_INITRET" "p 6 = JOYCON_INIT_BAUDRATE"
    unfolding ini [OF that(1), of 0] using that(2)
    by (simp add: joycon_initret_parse_def p6 init_sub_distinct)
  have isub: "joycon_packet_parse j_uninit s g p n = (s, g, [])"
    if "p 5 = JOYCON_COMMAND_INITRET" "p 6 \<noteq> JOYCON_INIT_MAC" "p 6 \<noteq> JOYCON_INIT_BAUDRATE"
    unfolding ini [OF that(1), of 0] using that(2,3)
    by (simp add: joycon_initret_parse_def p6)
  show ?thesis
    using indep ext ini hs unk inp sub baud isub by blast
qed


theorem packet_parse_dispatch_witness:
  "joycon_packet_parse 0 joycon_zeroed globals_zeroed (buf_of 0 [0xDE, 0xAD, 0xBE, 0xEF, 0x55, 0xA5]) 6
     = joycon_packet_parse 0 joycon_zeroed globals_zeroed (buf_of 0 [0x19, 0x01, 0x03, 0x01, 0x00, 0xA5]) 6
   \<and> joycon_packet_parse 0 joycon_zeroed globals_zeroed (buf_of 0 [0xDE, 0xAD, 0xBE, 0xEF, 0x55, 0xA5]) 6
     = (joycon_zeroed\<lparr>handshaken := True\<rparr>, globals_zeroed, [])
   \<and> num_samples (fst (joycon_packet_parse 0 joycon_zeroed globals_zeroed
        (buf_of 0 [0xDE, 0xAD, 0xBE, 0xEF, 0x55, 0x92, 0, 0, 0, 0, 0, 0,
                   0x30, 0, 0, 0x01, 0x02, 0x04]) 18)) = 1
   \<and> buttons (fst (joycon_packet_parse 0 joycon_zeroed globals_zeroed
        (buf_of 0 [0xDE, 0xAD, 0xBE, 0xEF, 0x55, 0x92, 0, 0, 0, 0, 0, 0,
                   0x30, 0, 0, 0x01, 0x02, 0x04]) 18)) = 0x040201
   \<and> joycon_packet_parse 0 joycon_zeroed globals_zeroed
        (buf_of 0 [0x19, 0x01, 0x03, 0x02, 0x00, 0x94, 0x20]) 7
     = (joycon_zeroed, globals_zeroed, [SetBaudrate 3125000])
   \<and> joycon_packet_parse 0 joycon_zeroed globals_zeroed (buf_of 0 [0x19, 0x01, 0x03, 0x01, 0x00, 0x77]) 6
     = (joycon_zeroed, globals_zeroed, [])
   \<and> joycon_packet_parse 0 joycon_zeroed globals_zeroed
        (buf_of 0 [0x19, 0x01, 0x03, 0x08, 0x00, 0x92, 0, 0, 0, 0, 0, 0, 0x31]) 13
     = (joycon_zeroed, globals_zeroed, [])
   \<and> joycon_packet_parse 0 joycon_zeroed globals_zeroed
        (buf_of 0 [0x19, 0x01, 0x03, 0x02, 0x00, 0x94, 0x11]) 7
     = (joycon_zeroed, globals_zeroed, [])"
proof -
  let ?a = "buf_of 0 [0xDE, 0xAD, 0xBE, 0xEF, 0x55, 0xA5]"
  let ?b = "buf_of 0 [0x19, 0x01, 0x03, 0x01, 0x00, 0xA5]"
  let ?r = "buf_of 0 [0xDE, 0xAD, 0xBE, 0xEF, 0x55, 0x92, 0, 0, 0, 0, 0, 0, 0x30, 0, 0, 0x01, 0x02, 0x04]"
  let ?d = "buf_of 0 [0x19, 0x01, 0x03, 0x02, 0x00, 0x94, 0x20]"
  let ?u = "buf_of 0 [0x19, 0x01, 0x03, 0x01, 0x00, 0x77]"
  let ?x = "buf_of 0 [0x19, 0x01, 0x03, 0x08, 0x00, 0x92, 0, 0, 0, 0, 0, 0, 0x31]"
  let ?y = "buf_of 0 [0x19, 0x01, 0x03, 0x02, 0x00, 0x94, 0x11]"
  note cs = buf_of_def JOYCON_COMMAND_HANDSHAKE_def JOYCON_COMMAND_EXTRET_def
    JOYCON_COMMAND_INITRET_def JOYCON_EXT_INPUT_def JOYCON_INIT_BAUDRATE_def JOYCON_INIT_MAC_def
  have ab: "\<forall>i\<ge>5. ?a i = ?b i" by (simp add: buf_of_def nth_Cons')
  have a5: "?a 5 = JOYCON_COMMAND_HANDSHAKE" by (simp add: cs)
  have r5: "?r 5 = JOYCON_COMMAND_EXTRET \<and> ?r 12 = JOYCON_EXT_INPUT" by (simp add: cs)
  have d5: "?d 5 = JOYCON_COMMAND_INITRET \<and> ?d 6 = JOYCON_INIT_BAUDRATE" by (simp add: cs)
  have u5: "?u 5 \<noteq> JOYCON_COMMAND_EXTRET \<and> ?u 5 \<noteq> JOYCON_COMMAND_INITRET
         \<and> ?u 5 \<noteq> JOYCON_COMMAND_HANDSHAKE" by (simp add: cs)
  have x5: "?x 5 = JOYCON_COMMAND_EXTRET \<and> ?x 12 \<noteq> JOYCON_EXT_INPUT" by (simp add: cs)
  have y5: "?y 5 = JOYCON_COMMAND_INITRET \<and> ?y 6 \<noteq> JOYCON_INIT_MAC \<and> ?y 6 \<noteq> JOYCON_INIT_BAUDRATE"
    by (simp add: cs)
  note th = packet_parse_dispatch [where j_uninit = 0 and s = joycon_zeroed and g = globals_zeroed
      and z = 0]
  have f1: "joycon_packet_parse 0 joycon_zeroed globals_zeroed ?a 6
         = joycon_packet_parse 0 joycon_zeroed globals_zeroed ?b 6"
    and f2: "joycon_packet_parse 0 joycon_zeroed globals_zeroed ?a 6
         = (joycon_zeroed\<lparr>handshaken := True\<rparr>, globals_zeroed, [])"
    using th [where p = "?a" and q = "?b" and n = 6 and m = 6, OF ab] a5 by blast+
  have f3: "num_samples (fst (joycon_packet_parse 0 joycon_zeroed globals_zeroed ?r 18))
         = num_samples joycon_zeroed + 1"
    and f4: "buttons (fst (joycon_packet_parse 0 joycon_zeroed globals_zeroed ?r 18))
         = ucast (?r 15) OR push_bit 8 (ucast (?r 16)) OR push_bit 16 (ucast (?r 17))"
    using th [where p = "?r" and q = "?r" and n = 18 and m = 18] r5 by blast+
  have f5: "joycon_packet_parse 0 joycon_zeroed globals_zeroed ?d 7
         = (joycon_zeroed, globals_zeroed, [SetBaudrate 3125000])"
    using th [where p = "?d" and q = "?d" and n = 7 and m = 7] d5 by blast
  have f6: "joycon_packet_parse 0 joycon_zeroed globals_zeroed ?u 6 = (joycon_zeroed, globals_zeroed, [])"
    using th [where p = "?u" and q = "?u" and n = 6 and m = 6] u5 by blast
  have f7: "joycon_packet_parse 0 joycon_zeroed globals_zeroed ?x 13 = (joycon_zeroed, globals_zeroed, [])"
    using th [where p = "?x" and q = "?x" and n = 13 and m = 13] x5 by blast
  have f8: "joycon_packet_parse 0 joycon_zeroed globals_zeroed ?y 7 = (joycon_zeroed, globals_zeroed, [])"
    using th [where p = "?y" and q = "?y" and n = 7 and m = 7] y5 by blast
  have g3: "num_samples (fst (joycon_packet_parse 0 joycon_zeroed globals_zeroed ?r 18)) = 1"
    unfolding f3 by (simp add: joycon_zeroed_def)
  have g4: "buttons (fst (joycon_packet_parse 0 joycon_zeroed globals_zeroed ?r 18)) = 0x040201"
    unfolding f4 by (simp add: buf_of_def)
  from f1 f2 g3 g4 f5 f6 f7 f8 show ?thesis by blast
qed


subsection \<open>The handshake loop\<close>

lemma round_ends_iff: "round_ends r = (\<not> round_quiet r)"
  by (auto simp add: round_ends_def round_quiet_def)

lemma clear_handshaken_idem: "\<not> handshaken s \<Longrightarrow> s\<lparr>handshaken := False\<rparr> = s"
  by (cases s) simp

lemma loop_quiet_step:
  assumes "\<not> handshaken s" and "round_quiet (env k)"
  shows "handshake_loop env k s es = handshake_loop env (Suc k) s (es @ handshake_pass)"
  using assms
  by (subst handshake_loop.simps) (simp add: round_quiet_def handshake_pass_def clear_handshaken_idem)

lemma loop_quiet_prefix:
  assumes "\<not> handshaken s" and "\<forall>i<n. round_quiet (env (k + i))"
  shows "handshake_loop env k s es
       = handshake_loop env (k + n) s (es @ concat (replicate n handshake_pass))"
  using assms(2)
proof (induction n arbitrary: k es)
  case 0
  then show ?case by simp
next
  case (Suc n)
  have q0: "round_quiet (env k)" using Suc.prems by (metis add.right_neutral zero_less_Suc)
  have rest: "\<forall>i<n. round_quiet (env (Suc k + i))"
    using Suc.prems by (metis Suc_less_eq add_Suc_shift)
  have "handshake_loop env k s es = handshake_loop env (Suc k) s (es @ handshake_pass)"
    using assms(1) q0 by (rule loop_quiet_step)
  also have "\<dots> = handshake_loop env (Suc k + n) s
                     ((es @ handshake_pass) @ concat (replicate n handshake_pass))"
    using rest by (rule Suc.IH)
  finally show ?case by simp
qed

lemma loop_acked:
  assumes "\<not> handshaken s" and "round_acked (env k)"
  shows "handshake_loop env k s es = Some (Handshaken, s\<lparr>handshaken := True\<rparr>, es @ handshake_pass)"
proof -
  have "handshake_loop env k s es
      = handshake_loop env (Suc k) (s\<lparr>handshaken := True\<rparr>) (es @ handshake_pass)"
    using assms by (subst handshake_loop.simps) (simp add: round_acked_def handshake_pass_def)
  also have "\<dots> = Some (Handshaken, s\<lparr>handshaken := True\<rparr>, es @ handshake_pass)"
    by (subst handshake_loop.simps) simp
  finally show ?thesis .
qed

lemma loop_fail:
  assumes "\<not> handshaken s" and "err_magic (env k) \<noteq> 0 \<or> err_handshake (env k) \<noteq> 0"
  shows "handshake_loop env k s es
       = Some (Fail, s, es @ (if err_magic (env k) \<noteq> 0 then [SerdevWrite magic_start]
                              else [SerdevWrite magic_start, SerdevWrite handshake_start]))"
  using assms by (subst handshake_loop.simps) auto


lemma concat_replicate_snoc:
  "concat (replicate n p) @ p = concat (replicate (Suc n) p)"
  by (induction n) simp_all

lemma loop_returns:
  assumes "\<not> handshaken s" and "round_ends (env n)"
  shows "\<exists>x s' es'. handshake_loop env 0 s [] = Some (x, s', es')
          \<and> hd es' = SerdevWrite magic_start \<and> SerdevWrite magic_start \<in> set es'
          \<and> (x = Fail \<longrightarrow> s' = s) \<and> (x = Handshaken \<longrightarrow> s' = s\<lparr>handshaken := True\<rparr>)"
proof -
  define m where "m = (LEAST i. round_ends (env i))"
  have me: "round_ends (env m)" unfolding m_def using assms(2) by (rule LeastI)
  have mq: "\<forall>i<m. round_quiet (env (0 + i))"
    unfolding m_def using not_less_Least round_ends_iff by auto
  have pre: "handshake_loop env 0 s []
      = handshake_loop env (0 + m) s ([] @ concat (replicate m handshake_pass))"
    using assms(1) mq by (rule loop_quiet_prefix)
  let ?es = "concat (replicate m handshake_pass)"
  have hd_pre: "hd (?es @ SerdevWrite magic_start # r) = SerdevWrite magic_start" for r
    by (cases m) (simp_all add: handshake_pass_def)
  show ?thesis
  proof (cases "err_magic (env m) \<noteq> 0 \<or> err_handshake (env m) \<noteq> 0")
    case True
    have "handshake_loop env m s ?es
       = Some (Fail, s, ?es @ (if err_magic (env m) \<noteq> 0 then [SerdevWrite magic_start]
                              else [SerdevWrite magic_start, SerdevWrite handshake_start]))"
      using assms(1) True by (rule loop_fail)
    with pre show ?thesis using hd_pre by auto
  next
    case False
    with me have "round_acked (env m)" by (simp add: round_ends_def round_acked_def)
    with assms(1) have "handshake_loop env m s ?es
       = Some (Handshaken, s\<lparr>handshaken := True\<rparr>, ?es @ handshake_pass)"
      by (rule loop_acked)
    with pre show ?thesis using hd_pre by (auto simp add: handshake_pass_def)
  qed
qed

lemma stalled_iff:
  "stalled s = ((num_samples s = timeout_samples s \<and> num_samples s \<noteq> 0) \<or> \<not> initialized s)"
  by (simp add: stalled_def)

lemma loop_Some_cause:
  "handshake_loop env k s es = Some r \<Longrightarrow> handshaken s \<or> (\<exists>n\<ge>k. round_ends (env n))"
proof (erule handshake_loop.raw_induct
    [where P = "\<lambda>env k s es r. handshaken s \<or> (\<exists>n\<ge>k. round_ends (env n))", rotated 1])
  fix hl :: "(nat \<Rightarrow> round) \<Rightarrow> nat \<Rightarrow> joycon \<Rightarrow> effect list \<Rightarrow> (loop_exit \<times> joycon \<times> effect list) option"
  fix env k s es r
  assume ih: "\<And>e k s es y. hl e k s es = Some y \<Longrightarrow> handshaken s \<or> (\<exists>n\<ge>k. round_ends (e n))"
  assume body: "(if handshaken s then Some (Handshaken, s, es)
      else if err_magic (env k) \<noteq> 0 then Some (Fail, s, es @ [SerdevWrite magic_start])
      else if err_handshake (env k) \<noteq> 0
        then Some (Fail, s, es @ [SerdevWrite magic_start, SerdevWrite handshake_start])
      else hl env (Suc k) (s\<lparr>handshaken := ack (env k)\<rparr>)
             (es @ [SerdevWrite magic_start, SerdevWrite handshake_start, Usleep 180000 200000]))
      = Some r"
  show "handshaken s \<or> (\<exists>n\<ge>k. round_ends (env n))"
  proof (cases "handshaken s \<or> round_ends (env k)")
    case True
    then show ?thesis by auto
  next
    case False
    then have na: "\<not> ack (env k)" by (simp add: round_ends_def)
    from False have "hl env (Suc k) (s\<lparr>handshaken := ack (env k)\<rparr>)
          (es @ [SerdevWrite magic_start, SerdevWrite handshake_start, Usleep 180000 200000]) = Some r"
      using body by (simp add: round_ends_def)
    from ih [OF this] na obtain n where "Suc k \<le> n" and "round_ends (env n)"
      by auto
    then have "k \<le> n \<and> round_ends (env n)" by simp
    then show ?thesis by blast
  qed
qed

lemma hd_passes:
  "hd (concat (replicate n handshake_pass) @ SerdevWrite magic_start # r) = SerdevWrite magic_start"
  by (cases n) (simp_all add: handshake_pass_def)

lemma loop_first_end:
  assumes "\<not> handshaken s" and "\<forall>i<n. round_quiet (env i)" and "round_ends (env n)"
  shows "handshake_loop env 0 s [] =
    Some (if err_magic (env n) \<noteq> 0
            then (Fail, s, concat (replicate n handshake_pass) @ [SerdevWrite magic_start])
          else if err_handshake (env n) \<noteq> 0
            then (Fail, s, concat (replicate n handshake_pass)
                           @ [SerdevWrite magic_start, SerdevWrite handshake_start])
          else (Handshaken, s\<lparr>handshaken := True\<rparr>, concat (replicate (Suc n) handshake_pass)))"
proof -
  let ?es = "concat (replicate n handshake_pass)"
  have q: "\<forall>i<n. round_quiet (env (0 + i))" using assms(2) by simp
  have pre: "handshake_loop env 0 s [] = handshake_loop env (0 + n) s ([] @ ?es)"
    using assms(1) q by (rule loop_quiet_prefix)
  show ?thesis
  proof (cases "err_magic (env n) \<noteq> 0 \<or> err_handshake (env n) \<noteq> 0")
    case True
    have "handshake_loop env n s ?es
       = Some (Fail, s, ?es @ (if err_magic (env n) \<noteq> 0 then [SerdevWrite magic_start]
                              else [SerdevWrite magic_start, SerdevWrite handshake_start]))"
      using assms(1) True by (rule loop_fail)
    with pre True show ?thesis by auto
  next
    case False
    with assms(3) have "round_acked (env n)" by (simp add: round_ends_def round_acked_def)
    with assms(1) have "handshake_loop env n s ?es
       = Some (Handshaken, s\<lparr>handshaken := True\<rparr>, ?es @ handshake_pass)"
      by (rule loop_acked)
    with pre False show ?thesis by (simp only: concat_replicate_snoc) simp
  qed
qed

text \<open>The handler returns exactly when its loop, if entered, meets a pass that ends it.\<close>

lemma timeout_handler_returns_iff:
  "(timeout_handler env s \<noteq> None) = (stalled s \<longrightarrow> (\<exists>n. round_ends (env n)))"
proof (cases "stalled s")
  case False
  then show ?thesis by (simp add: timeout_handler_def)
next
  case True
  let ?s0 = "s\<lparr>handshaken := False, initialized := False\<rparr>"
  have nh: "\<not> handshaken ?s0" by simp
  show ?thesis
  proof
    assume "timeout_handler env s \<noteq> None"
    with True obtain r where "handshake_loop env 0 ?s0 [] = Some r"
      by (auto simp add: timeout_handler_def split: option.splits)
    from loop_Some_cause [OF this] show "stalled s \<longrightarrow> (\<exists>n. round_ends (env n))" by auto
  next
    assume "stalled s \<longrightarrow> (\<exists>n. round_ends (env n))"
    with True obtain n where n: "round_ends (env n)" by blast
    from loop_returns [where s = "?s0" and env = env and n = n, OF nh n]
    obtain x s1 es1 where "handshake_loop env 0 ?s0 [] = Some (x, s1, es1)" by blast
    with True show "timeout_handler env s \<noteq> None"
      by (cases x) (simp_all add: timeout_handler_def)
  qed
qed

text \<open>
  The handshake loop has no bound of its own. When \<open>timeout_handler\<close> enters the recovery
  branch and every pass is quiet (both writes succeed, no acknowledgement arrives), the
  handler does not return: it neither records \<open>timeout_samples\<close> nor queues itself again.
\<close>

theorem timeout_handler_never_returns:
  assumes "stalled s" and "\<forall>n. round_quiet (env n)"
  shows "timeout_handler env s = None"
proof -
  let ?s0 = "s\<lparr>handshaken := False, initialized := False\<rparr>"
  have "handshake_loop env 0 ?s0 [] = None"
  proof (rule ccontr)
    assume "handshake_loop env 0 ?s0 [] \<noteq> None"
    then obtain r where "handshake_loop env 0 ?s0 [] = Some r" by blast
    from loop_Some_cause [OF this] assms(2) show False
      by (simp add: round_ends_iff)
  qed
  with assms(1) show ?thesis by (simp add: timeout_handler_def)
qed

theorem timeout_handler_never_returns_witness:
  "stalled joycon_zeroed \<and> round_quiet (env_silent 0)
   \<and> timeout_handler env_silent joycon_zeroed = None"
proof -
  have s: "stalled joycon_zeroed" by (simp add: stalled_def joycon_zeroed_def)
  have q: "\<forall>n. round_quiet (env_silent n)" by (simp add: round_quiet_def env_silent_def)
  from timeout_handler_never_returns [where s = joycon_zeroed and env = env_silent, OF s q] s q
  show ?thesis by simp
qed

subsection \<open>The initialisation sequence\<close>

text \<open>
  C6. A tick of \<open>timeout_handler\<close> that enters the recovery branch and whose handshake is
  acknowledged in pass \<open>n\<close> (after \<open>n\<close> quiet passes) returns, and what it does after the
  last handshake pass is exactly: the writes of \<open>get_mac\<close>, \<open>unk_1\<close>, \<open>unk_2\<close>, \<open>unk_3\<close>, in
  this order and with no other call between them, then the session has \<open>num_samples = 0\<close>
  and \<open>initialized\<close> set (and is handshaken), and the handler is queued again. Nothing
  received enters between the four writes or before \<open>initialized\<close> is set.
\<close>

theorem timeout_handler_init_sequence:
  assumes "stalled s" and "\<forall>i<n. round_quiet (env i)" and "round_acked (env n)"
  shows "timeout_handler env s =
    Some (s\<lparr>handshaken := True, initialized := True, num_samples := 0, timeout_samples := 0\<rparr>,
          concat (replicate (Suc n) handshake_pass)
          @ [SerdevWrite get_mac, SerdevWrite unk_1, SerdevWrite unk_2, SerdevWrite unk_3,
             QueueDelayedWork TimeoutPoll 200])"
proof -
  let ?s0 = "s\<lparr>handshaken := False, initialized := False\<rparr>"
  have nh: "\<not> handshaken ?s0" by simp
  have q: "\<forall>i<n. round_quiet (env (0 + i))" using assms(2) by simp
  have a: "round_acked (env (0 + n))" using assms(3) by simp
  have "handshake_loop env 0 ?s0 []
      = handshake_loop env (0 + n) ?s0 ([] @ concat (replicate n handshake_pass))"
    using nh q by (rule loop_quiet_prefix)
  also have "\<dots> = Some (Handshaken, ?s0\<lparr>handshaken := True\<rparr>,
                        ([] @ concat (replicate n handshake_pass)) @ handshake_pass)"
    using nh a by (rule loop_acked)
  finally have l: "handshake_loop env 0 ?s0 []
      = Some (Handshaken, ?s0\<lparr>handshaken := True\<rparr>, concat (replicate (Suc n) handshake_pass))"
    by (simp only: append_Nil concat_replicate_snoc)
  show ?thesis
    using assms(1) by (simp add: timeout_handler_def l timeout_rearm_def del: replicate_Suc replicate.simps)
qed

theorem timeout_handler_init_sequence_witness:
  "timeout_handler env_ack_second joycon_zeroed =
     Some (joycon_zeroed\<lparr>handshaken := True, initialized := True\<rparr>,
           [SerdevWrite magic_start, SerdevWrite handshake_start, Usleep 180000 200000,
            SerdevWrite magic_start, SerdevWrite handshake_start, Usleep 180000 200000,
            SerdevWrite get_mac, SerdevWrite unk_1, SerdevWrite unk_2, SerdevWrite unk_3,
            QueueDelayedWork TimeoutPoll 200])"
proof -
  have s: "stalled joycon_zeroed" by (simp add: stalled_def joycon_zeroed_def)
  have q: "\<forall>i<1. round_quiet (env_ack_second i)"
    by (simp add: round_quiet_def env_ack_second_def)
  have a: "round_acked (env_ack_second 1)"
    by (simp add: round_acked_def env_ack_second_def)
  from timeout_handler_init_sequence [where s = joycon_zeroed and env = env_ack_second and n = 1, OF s q a]
  show ?thesis by (simp add: handshake_pass_def joycon_zeroed_def)
qed


subsection \<open>The liveness monitor tick\<close>

text \<open>
  C3, as claimed: after every tick, whatever its outcome, \<open>timeout_samples\<close> is set to
  \<open>num_samples\<close> and the handler is queued again. On the code a ready session whose
  counter stands at 3 on two ticks in a row enters the recovery branch; when both writes
  succeed in every pass and no acknowledgement arrives (a controller that has been
  removed), the loop \<open>while (!joycon->handshaken)\<close> does not end and the handler never
  reaches the statements that record the counter and queue the next tick.
\<close>

theorem silent_tick_never_rearms:
  "stalled (joycon_zeroed\<lparr>handshaken := True, initialized := True, num_samples := 3, timeout_samples := 3\<rparr>)
   \<and> timeout_handler env_silent
        (joycon_zeroed\<lparr>handshaken := True, initialized := True, num_samples := 3, timeout_samples := 3\<rparr>)
       = None"
proof -
  let ?s = "joycon_zeroed\<lparr>handshaken := True, initialized := True, num_samples := 3, timeout_samples := 3\<rparr>"
  have s: "stalled ?s" by (simp add: stalled_def)
  have ne: "\<not> (\<exists>n. round_ends (env_silent n))" by (simp add: round_ends_def env_silent_def)
  have "timeout_handler env_silent ?s = None"
    using timeout_handler_returns_iff [of env_silent "?s"] s ne by blast
  with s show ?thesis by blast
qed

text \<open>
  C3, amended: take a tick of \<open>timeout_handler\<close> whose handshake loop, if it is entered, is
  ended in some pass \<open>n\<close> by a failed write or by an acknowledgement, after \<open>n\<close> quiet
  passes. The recovery branch is entered exactly when \<open>stalled\<close> holds at entry, that is
  when \<open>num_samples\<close> equals \<open>timeout_samples\<close> and is not zero, or \<open>initialized\<close> is false.
  If it is not entered the session keeps its phase and the only call is the re-queue.
  If it is entered the session is first set back to not handshaken and not initialised
  and the handshake frames are sent within the tick: when pass \<open>n\<close> ends with a failed
  write the session leaves the tick in that state, the failed write being the last one
  made; when it ends with an acknowledgement the session leaves the tick handshaken and
  initialised with \<open>num_samples = 0\<close>, after the four initialisation requests. In each of
  these cases \<open>timeout_samples\<close> equals \<open>num_samples\<close> afterwards and the last call queues
  the handler again after 200 ms. A tick whose loop is never ended does not return
  (\<open>timeout_handler_returns_iff\<close>).
\<close>

theorem timeout_handler_returning_tick:
  assumes "stalled s \<longrightarrow> (\<forall>i<n. round_quiet (env i)) \<and> round_ends (env n)"
  shows "timeout_handler env s = Some
      (if \<not> stalled s then
         (s\<lparr>timeout_samples := num_samples s\<rparr>, [QueueDelayedWork TimeoutPoll 200])
       else if err_magic (env n) \<noteq> 0 then
         (s\<lparr>handshaken := False, initialized := False, timeout_samples := num_samples s\<rparr>,
          concat (replicate n handshake_pass)
          @ [SerdevWrite magic_start, QueueDelayedWork TimeoutPoll 200])
       else if err_handshake (env n) \<noteq> 0 then
         (s\<lparr>handshaken := False, initialized := False, timeout_samples := num_samples s\<rparr>,
          concat (replicate n handshake_pass)
          @ [SerdevWrite magic_start, SerdevWrite handshake_start, QueueDelayedWork TimeoutPoll 200])
       else
         (s\<lparr>handshaken := True, initialized := True, num_samples := 0, timeout_samples := 0\<rparr>,
          concat (replicate (Suc n) handshake_pass)
          @ [SerdevWrite get_mac, SerdevWrite unk_1, SerdevWrite unk_2, SerdevWrite unk_3,
             QueueDelayedWork TimeoutPoll 200]))
    \<and> (stalled s \<longleftrightarrow> (num_samples s = timeout_samples s \<and> num_samples s \<noteq> 0) \<or> \<not> initialized s)
    \<and> (\<forall>s' es. timeout_handler env s = Some (s', es) \<longrightarrow>
          timeout_samples s' = num_samples s'
        \<and> last es = QueueDelayedWork TimeoutPoll 200
        \<and> (SerdevWrite magic_start \<in> set es \<longleftrightarrow> stalled s)
        \<and> (stalled s \<longrightarrow> hd es = SerdevWrite magic_start))"
proof -
  let ?rhs = "(if \<not> stalled s then
         (s\<lparr>timeout_samples := num_samples s\<rparr>, [QueueDelayedWork TimeoutPoll 200])
       else if err_magic (env n) \<noteq> 0 then
         (s\<lparr>handshaken := False, initialized := False, timeout_samples := num_samples s\<rparr>,
          concat (replicate n handshake_pass)
          @ [SerdevWrite magic_start, QueueDelayedWork TimeoutPoll 200])
       else if err_handshake (env n) \<noteq> 0 then
         (s\<lparr>handshaken := False, initialized := False, timeout_samples := num_samples s\<rparr>,
          concat (replicate n handshake_pass)
          @ [SerdevWrite magic_start, SerdevWrite handshake_start, QueueDelayedWork TimeoutPoll 200])
       else
         (s\<lparr>handshaken := True, initialized := True, num_samples := 0, timeout_samples := 0\<rparr>,
          concat (replicate (Suc n) handshake_pass)
          @ [SerdevWrite get_mac, SerdevWrite unk_1, SerdevWrite unk_2, SerdevWrite unk_3,
             QueueDelayedWork TimeoutPoll 200]))"
  have eq: "timeout_handler env s = Some ?rhs"
  proof (cases "stalled s")
    case False
    then show ?thesis by (simp add: timeout_handler_def timeout_rearm_def)
  next
    case True
    let ?s0 = "s\<lparr>handshaken := False, initialized := False\<rparr>"
    have nh: "\<not> handshaken ?s0" by simp
    from True assms have q: "\<forall>i<n. round_quiet (env i)" and e: "round_ends (env n)" by blast+
    note l = loop_first_end [where s = "?s0" and env = env and n = n, OF nh q e]
    show ?thesis
      using True
      by (simp add: timeout_handler_def l timeout_rearm_def del: replicate_Suc replicate.simps)
  qed
  have st: "stalled s \<longleftrightarrow> (num_samples s = timeout_samples s \<and> num_samples s \<noteq> 0) \<or> \<not> initialized s"
    by (rule stalled_iff)
  have m: "SerdevWrite magic_start \<in> set handshake_pass" by (simp add: handshake_pass_def)
  have props: "timeout_samples (fst ?rhs) = num_samples (fst ?rhs)
        \<and> last (snd ?rhs) = QueueDelayedWork TimeoutPoll 200
        \<and> (SerdevWrite magic_start \<in> set (snd ?rhs) \<longleftrightarrow> stalled s)
        \<and> (stalled s \<longrightarrow> hd (snd ?rhs) = SerdevWrite magic_start)"
    using hd_passes [of n] hd_passes [of "Suc n"] m
    by (simp add: handshake_pass_def del: replicate_Suc replicate.simps)
  have c: "\<forall>s' es. timeout_handler env s = Some (s', es) \<longrightarrow>
          timeout_samples s' = num_samples s'
        \<and> last es = QueueDelayedWork TimeoutPoll 200
        \<and> (SerdevWrite magic_start \<in> set es \<longleftrightarrow> stalled s)
        \<and> (stalled s \<longrightarrow> hd es = SerdevWrite magic_start)"
  proof (intro allI impI)
    fix s' es
    assume "timeout_handler env s = Some (s', es)"
    with eq have "?rhs = (s', es)" by simp
    then have f: "fst ?rhs = s'" and g: "snd ?rhs = es" by simp_all
    show "timeout_samples s' = num_samples s'
        \<and> last es = QueueDelayedWork TimeoutPoll 200
        \<and> (SerdevWrite magic_start \<in> set es \<longleftrightarrow> stalled s)
        \<and> (stalled s \<longrightarrow> hd es = SerdevWrite magic_start)"
      using props unfolding f g .
  qed
  from eq st c show ?thesis by blast
qed


theorem timeout_handler_returning_tick_witness:
  "timeout_handler env_write_fails
      (joycon_zeroed\<lparr>handshaken := True, initialized := True, num_samples := 3, timeout_samples := 3\<rparr>)
    = Some (joycon_zeroed\<lparr>num_samples := 3, timeout_samples := 3\<rparr>,
            [SerdevWrite magic_start, QueueDelayedWork TimeoutPoll 200])
   \<and> timeout_handler env_handshake_write_fails_second
      (joycon_zeroed\<lparr>handshaken := True, initialized := True, num_samples := 3, timeout_samples := 3\<rparr>)
    = Some (joycon_zeroed\<lparr>num_samples := 3, timeout_samples := 3\<rparr>,
            [SerdevWrite magic_start, SerdevWrite handshake_start, Usleep 180000 200000,
             SerdevWrite magic_start, SerdevWrite handshake_start,
             QueueDelayedWork TimeoutPoll 200])
   \<and> timeout_handler env_ack_second
      (joycon_zeroed\<lparr>handshaken := True, initialized := True, num_samples := 3, timeout_samples := 3\<rparr>)
    = Some (joycon_zeroed\<lparr>handshaken := True, initialized := True\<rparr>,
            [SerdevWrite magic_start, SerdevWrite handshake_start, Usleep 180000 200000,
             SerdevWrite magic_start, SerdevWrite handshake_start, Usleep 180000 200000,
             SerdevWrite get_mac, SerdevWrite unk_1, SerdevWrite unk_2, SerdevWrite unk_3,
             QueueDelayedWork TimeoutPoll 200])
   \<and> timeout_handler env_write_fails
      (joycon_zeroed\<lparr>handshaken := True, initialized := True, num_samples := 5, timeout_samples := 3\<rparr>)
    = Some (joycon_zeroed\<lparr>handshaken := True, initialized := True, num_samples := 5, timeout_samples := 5\<rparr>,
            [QueueDelayedWork TimeoutPoll 200])"
proof -
  let ?s = "joycon_zeroed\<lparr>handshaken := True, initialized := True, num_samples := 3, timeout_samples := 3\<rparr>"
  let ?t = "joycon_zeroed\<lparr>handshaken := True, initialized := True, num_samples := 5, timeout_samples := 3\<rparr>"
  have s: "stalled ?s" by (simp add: stalled_def)
  have nt: "\<not> stalled ?t" by (simp add: stalled_def)
  have h1: "stalled ?s \<longrightarrow> (\<forall>i<0. round_quiet (env_write_fails i)) \<and> round_ends (env_write_fails 0)"
    by (simp add: round_ends_def env_write_fails_def)
  have h2: "stalled ?s \<longrightarrow> (\<forall>i<1. round_quiet (env_handshake_write_fails_second i))
              \<and> round_ends (env_handshake_write_fails_second 1)"
    by (simp add: round_ends_def round_quiet_def env_handshake_write_fails_second_def)
  have h3: "stalled ?s \<longrightarrow> (\<forall>i<1. round_quiet (env_ack_second i)) \<and> round_ends (env_ack_second 1)"
    by (simp add: round_ends_def round_quiet_def env_ack_second_def)
  have h4: "stalled ?t \<longrightarrow> (\<forall>i<0. round_quiet (env_write_fails i)) \<and> round_ends (env_write_fails 0)"
    by (simp add: round_ends_def env_write_fails_def)
  from timeout_handler_returning_tick [where s = "?s" and env = env_write_fails and n = 0, OF h1] s
  have r1: "timeout_handler env_write_fails ?s
      = Some (joycon_zeroed\<lparr>num_samples := 3, timeout_samples := 3\<rparr>,
              [SerdevWrite magic_start, QueueDelayedWork TimeoutPoll 200])"
    by (simp add: env_write_fails_def joycon_zeroed_def)
  from timeout_handler_returning_tick [where s = "?s" and env = env_handshake_write_fails_second
      and n = 1, OF h2] s
  have r2: "timeout_handler env_handshake_write_fails_second ?s
      = Some (joycon_zeroed\<lparr>num_samples := 3, timeout_samples := 3\<rparr>,
            [SerdevWrite magic_start, SerdevWrite handshake_start, Usleep 180000 200000,
             SerdevWrite magic_start, SerdevWrite handshake_start,
             QueueDelayedWork TimeoutPoll 200])"
    by (simp add: env_handshake_write_fails_second_def joycon_zeroed_def handshake_pass_def)
  from timeout_handler_returning_tick [where s = "?s" and env = env_ack_second and n = 1, OF h3] s
  have r3: "timeout_handler env_ack_second ?s
      = Some (joycon_zeroed\<lparr>handshaken := True, initialized := True\<rparr>,
            [SerdevWrite magic_start, SerdevWrite handshake_start, Usleep 180000 200000,
             SerdevWrite magic_start, SerdevWrite handshake_start, Usleep 180000 200000,
             SerdevWrite get_mac, SerdevWrite unk_1, SerdevWrite unk_2, SerdevWrite unk_3,
             QueueDelayedWork TimeoutPoll 200])"
    by (simp add: env_ack_second_def joycon_zeroed_def handshake_pass_def)
  from timeout_handler_returning_tick [where s = "?t" and env = env_write_fails and n = 0, OF h4] nt
  have r4: "timeout_handler env_write_fails ?t
      = Some (joycon_zeroed\<lparr>handshaken := True, initialized := True, num_samples := 5, timeout_samples := 5\<rparr>,
            [QueueDelayedWork TimeoutPoll 200])"
    by (simp add: joycon_zeroed_def)
  from r1 r2 r3 r4 show ?thesis by blast
qed


subsection \<open>Identifier replies\<close>

lemma mac_loop_from_zero:
  assumes "mac s = [a, b, c, d, e, f]"
  shows "mac_loop 0xC 0 packet (s, [])
     = (s\<lparr>mac := [packet 12, packet 11, packet 10, packet 9, packet 8, packet 7]\<rparr>,
        [StrayStore 6 (packet 6)])"
  using assms by (simp add: mac_loop.simps store_mac_def)

lemma list6: "length m = 6 \<Longrightarrow> \<exists>a b c d e f. m = [a, b, c, d, e, f]"
  by (auto simp add: length_Suc_conv eval_nat_numeral)


text \<open>
  C4, as claimed: the side is assigned exactly once per session. On the code every
  identifier reply assigns it again: a fresh session that processes a reply with first
  identifier byte \<open>0x7C\<close> becomes right, and the same session processing a second reply
  with first byte \<open>0x32\<close> becomes left.
\<close>

theorem side_reassigned_by_later_reply:
  "button_set (fst (joycon_initret_parse 0 joycon_zeroed
      (buf_of 0 [0x01, 0, 0, 0, 0, 0, 0x00, 0x66, 0x55, 0x44, 0x33, 0x22, 0x7C]) 13))
     = JOYCON_BUTTONSET_RIGHT
   \<and> button_set (fst (joycon_initret_parse 0
        (fst (joycon_initret_parse 0 joycon_zeroed
           (buf_of 0 [0x01, 0, 0, 0, 0, 0, 0x00, 0x66, 0x55, 0x44, 0x33, 0x22, 0x7C]) 13))
        (buf_of 0 [0x01, 0, 0, 0, 0, 0, 0x00, 0x66, 0x55, 0x44, 0x33, 0x22, 0x32]) 13))
     = JOYCON_BUTTONSET_LEFT
   \<and> JOYCON_BUTTONSET_LEFT \<noteq> JOYCON_BUTTONSET_RIGHT"
  by (simp add: joycon_initret_parse_def joycon_zeroed_def buf_of_def mac_loop.simps store_mac_def
      JOYCON_INIT_MAC_def JOYCON_BUTTONSET_LEFT_def JOYCON_BUTTONSET_RIGHT_def Let_def)


text \<open>
  C4, amended: with the copy index starting at zero, an identifier reply
  (\<open>packet 0 = 0x01\<close>) stores the six bytes \<open>packet[12]\<close> down to \<open>packet[7]\<close> as the
  identifier and sets the side to right when \<open>packet[12]\<close>, the identifier's first byte,
  is \<open>0x7C\<close> and to left otherwise, whatever the side was before: the assignment is made on
  every identifier reply processed.
\<close>

theorem initret_mac_side:
  assumes "packet 0 = JOYCON_INIT_MAC" and "length (mac s) = 6"
  shows "fst (joycon_initret_parse 0 s packet sz) =
           s\<lparr>mac := [packet 12, packet 11, packet 10, packet 9, packet 8, packet 7],
             button_set := (if packet 12 = 0x7C then JOYCON_BUTTONSET_RIGHT else JOYCON_BUTTONSET_LEFT)\<rparr>"
proof -
  from list6 [OF assms(2)] obtain a b c d e f where m: "mac s = [a, b, c, d, e, f]" by blast
  show ?thesis
    using assms(1) by (simp add: joycon_initret_parse_def mac_loop_from_zero [OF m] Let_def)
qed

theorem initret_mac_side_witness:
  "fst (joycon_initret_parse 0 joycon_zeroed
          (buf_of 0 [0x01, 0, 0, 0, 0, 0, 0x00, 0x66, 0x55, 0x44, 0x33, 0x22, 0x7C]) 13)
     = joycon_zeroed\<lparr>mac := [0x7C, 0x22, 0x33, 0x44, 0x55, 0x66], button_set := JOYCON_BUTTONSET_RIGHT\<rparr>
   \<and> fst (joycon_initret_parse 0 joycon_zeroed
          (buf_of 0 [0x01, 0, 0, 0, 0, 0, 0x00, 0x66, 0x55, 0x44, 0x33, 0x22, 0x32]) 13)
     = joycon_zeroed\<lparr>mac := [0x32, 0x22, 0x33, 0x44, 0x55, 0x66], button_set := JOYCON_BUTTONSET_LEFT\<rparr>"
proof -
  let ?p = "buf_of 0 [0x01, 0, 0, 0, 0, 0, 0x00, 0x66, 0x55, 0x44, 0x33, 0x22, 0x7C]"
  let ?q = "buf_of 0 [0x01, 0, 0, 0, 0, 0, 0x00, 0x66, 0x55, 0x44, 0x33, 0x22, 0x32]"
  have p0: "?p 0 = JOYCON_INIT_MAC" and q0: "?q 0 = JOYCON_INIT_MAC"
    by (simp_all add: buf_of_def JOYCON_INIT_MAC_def)
  have l: "length (mac joycon_zeroed) = 6" by (simp add: joycon_zeroed_def)
  from initret_mac_side [where packet = "?p" and s = joycon_zeroed and sz = 13, OF p0 l]
       initret_mac_side [where packet = "?q" and s = joycon_zeroed and sz = 13, OF q0 l]
  show ?thesis by (simp add: buf_of_def)
qed

end
